theory Spec2Isabelle
  imports Complex_Main "HOL-Library.Sublist"
begin

section \<open>The hiring service: question validation and answer scoring\<close>

text \<open>
  This theory embeds the two pure functions of \<^verbatim>\<open>src/app.ts\<close>,
  \<^verbatim>\<open>validateQuestion\<close> and \<^verbatim>\<open>calculateScore\<close>, together with the part of the
  JavaScript run time they rely on (numbers, strings, dynamically typed answer values,
  \<^verbatim>\<open>Set\<close>, \<^verbatim>\<open>Number(...)\<close>).

  Scope of the model:
  \<^item> a JavaScript number is \<open>NaN\<close>, one of the two infinities, or a finite double. A
    finite double is given by its value, a real number, and every result of an
    arithmetic operation or of reading a numeric literal is rounded to the nearest
    double, ties to even, with overflow to an infinity and gradual underflow. The sign
    of zero is not kept: neither function can observe it, since it divides by sizes only,
    which are positive;
  \<^item> a JavaScript string is a \<open>string\<close> whose characters are the code units below 256
    (Latin-1); white space and lower-casing are those of that range;
  \<^item> a question has the fields of the interface \<^verbatim>\<open>Question\<close> of the type declarations:
    the text and the type are strings and the points are a number, as the interface
    requires; an optional field is absent (\<^verbatim>\<open>undefined\<close>), \<^verbatim>\<open>null\<close> or given, as the
    checks of \<^verbatim>\<open>validateQuestion\<close> distinguish;
  \<^item> an answer is any value that a request body can hold: the fields of an object are
    kept, since a field named \<^verbatim>\<open>toString\<close> makes the conversion of the object to a number
    throw a \<^verbatim>\<open>TypeError\<close>. The decimal digits that print a number are not modelled: a
    number printed and read back is the same number.
\<close>

subsection \<open>Numbers\<close>

datatype jsnum = NaN | NegInf | PosInf | Fin real

text \<open>Rounding to the nearest integer, ties to the even one.\<close>

definition rne :: "real \<Rightarrow> int" where
  "rne y =
     (let f = \<lfloor>y\<rfloor>; r = y - of_int f
      in if r < 1 / 2 then f else if 1 / 2 < r then f + 1 else if even f then f else f + 1)"

text \<open>The exponent \<open>e\<close> of a positive number \<open>x\<close>, with \<open>2\<^sup>e \<le> x < 2\<^sup>e\<^sup>+\<^sup>1\<close>: by halving a
  number that is at least one, by doubling a number below one.\<close>

function expo_hi :: "real \<Rightarrow> int" where
  "expo_hi x = (if x < 2 then 0 else expo_hi (x / 2) + 1)"
  by pat_completeness auto
termination
  by (relation "measure (\<lambda>x. nat \<lfloor>x\<rfloor>)") (auto, linarith)

function expo_lo :: "real \<Rightarrow> int" where
  "expo_lo x = (if x \<le> 0 \<or> 1 \<le> x then 0 else expo_lo (2 * x) - 1)"
  by pat_completeness auto
termination
proof (relation "measure (\<lambda>x. nat \<lceil>1 / x\<rceil>)")
  show "wf (measure (\<lambda>x. nat \<lceil>1 / x\<rceil>))" by simp
next
  fix x :: real
  assume "\<not> (x \<le> 0 \<or> 1 \<le> x)"
  then have x: "0 < x" "x < 1" by auto
  then have h: "1 < 1 / x" by simp
  have "\<lceil>1 / (2 * x)\<rceil> < \<lceil>1 / x\<rceil>"
  proof (cases "1 / x \<le> 2")
    case True
    then have "1 / (2 * x) \<le> 1" using x by (simp add: field_simps)
    then have "\<lceil>1 / (2 * x)\<rceil> \<le> 1" by (simp add: ceiling_le_one)
    moreover have "1 < \<lceil>1 / x\<rceil>" using h by linarith
    ultimately show ?thesis by linarith
  next
    case False
    then have "1 / (2 * x) \<le> 1 / x - 1" using x by (simp add: field_simps)
    then have "\<lceil>1 / (2 * x)\<rceil> \<le> \<lceil>1 / x - 1\<rceil>" by (rule ceiling_mono)
    then show ?thesis by simp
  qed
  moreover have "0 < \<lceil>1 / x\<rceil>" using h by linarith
  ultimately show "(2 * x, x) \<in> measure (\<lambda>x. nat \<lceil>1 / x\<rceil>)"
    by simp
qed

declare expo_hi.simps [simp del] expo_lo.simps [simp del]

definition expo :: "real \<Rightarrow> int" where
  "expo x = (if 1 \<le> x then expo_hi x else expo_lo x)"

text \<open>The doubles. The smallest normal number is \<open>2\<^sup>-\<^sup>1\<^sup>0\<^sup>2\<^sup>2\<close>; below it the numbers are spaced
  as in the lowest binade. A number in the binade of exponent \<open>e\<close> is a multiple of
  \<open>2\<^sup>e\<^sup>-\<^sup>5\<^sup>2\<close>, and rounding takes the nearest multiple, the even one at a tie. A result
  that reaches \<open>2\<^sup>1\<^sup>0\<^sup>2\<^sup>4\<close> is infinite.\<close>

definition min_normal :: real where
  "min_normal = 1 / 2 ^ 1022"

definition overflow :: real where
  "overflow = 2 ^ 1024"

definition binade :: "real \<Rightarrow> int" where
  "binade x = (if x < min_normal then - 1022 else expo x)"

definition round_pos :: "real \<Rightarrow> jsnum" where
  "round_pos x =
     (if overflow \<le> x then PosInf
      else
        let u = 2 powi (binade x - 52);
            y = u * of_int (rne (x / u))
        in if overflow \<le> y then PosInf else Fin y)"

fun js_neg :: "jsnum \<Rightarrow> jsnum" where
  "js_neg NaN = NaN"
| "js_neg NegInf = PosInf"
| "js_neg PosInf = NegInf"
| "js_neg (Fin a) = Fin (- a)"

definition to_double :: "real \<Rightarrow> jsnum" where
  "to_double x =
     (if x = 0 then Fin 0 else if 0 < x then round_pos x else js_neg (round_pos (- x)))"

text \<open>A real number is a double when rounding leaves it as it is.\<close>

definition is_double :: "real \<Rightarrow> bool" where
  "is_double x = (to_double x = Fin x)"

text \<open>The relational operators \<^verbatim>\<open><=\<close>, \<^verbatim>\<open><\<close> and \<^verbatim>\<open>>=\<close>: every comparison with
  \<open>NaN\<close> is false.\<close>

fun js_le :: "jsnum \<Rightarrow> jsnum \<Rightarrow> bool" where
  "js_le NaN _ = False"
| "js_le _ NaN = False"
| "js_le NegInf _ = True"
| "js_le _ PosInf = True"
| "js_le (Fin a) (Fin b) = (a \<le> b)"
| "js_le _ _ = False"

fun js_lt :: "jsnum \<Rightarrow> jsnum \<Rightarrow> bool" where
  "js_lt NaN _ = False"
| "js_lt _ NaN = False"
| "js_lt PosInf _ = False"
| "js_lt _ NegInf = False"
| "js_lt NegInf _ = True"
| "js_lt _ PosInf = True"
| "js_lt (Fin a) (Fin b) = (a < b)"

definition js_ge :: "jsnum \<Rightarrow> jsnum \<Rightarrow> bool" where
  "js_ge a b = js_le b a"

text \<open>The operators \<^verbatim>\<open>*\<close> and \<^verbatim>\<open>/\<close>: the exact product or quotient of two finite
  numbers is rounded to a double. An infinity times zero, an infinity divided by an
  infinity and zero divided by zero are \<open>NaN\<close>.\<close>

fun js_mul :: "jsnum \<Rightarrow> jsnum \<Rightarrow> jsnum" where
  "js_mul NaN _ = NaN"
| "js_mul _ NaN = NaN"
| "js_mul (Fin a) (Fin b) = to_double (a * b)"
| "js_mul PosInf (Fin b) = (if b = 0 then NaN else if 0 < b then PosInf else NegInf)"
| "js_mul NegInf (Fin b) = (if b = 0 then NaN else if 0 < b then NegInf else PosInf)"
| "js_mul (Fin a) PosInf = (if a = 0 then NaN else if 0 < a then PosInf else NegInf)"
| "js_mul (Fin a) NegInf = (if a = 0 then NaN else if 0 < a then NegInf else PosInf)"
| "js_mul PosInf PosInf = PosInf"
| "js_mul NegInf NegInf = PosInf"
| "js_mul PosInf NegInf = NegInf"
| "js_mul NegInf PosInf = NegInf"

fun js_div :: "jsnum \<Rightarrow> jsnum \<Rightarrow> jsnum" where
  "js_div NaN _ = NaN"
| "js_div _ NaN = NaN"
| "js_div (Fin a) (Fin b) =
     (if b = 0 then (if a = 0 then NaN else if 0 < a then PosInf else NegInf)
      else to_double (a / b))"
| "js_div (Fin a) _ = Fin 0"
| "js_div PosInf (Fin b) = (if 0 \<le> b then PosInf else NegInf)"
| "js_div NegInf (Fin b) = (if 0 \<le> b then NegInf else PosInf)"
| "js_div _ _ = NaN"

definition isNaN :: "jsnum \<Rightarrow> bool" where
  "isNaN n = (n = NaN)"

text \<open>\<^verbatim>\<open>!n\<close> for a number: zero and \<open>NaN\<close> are the falsy numbers.\<close>

definition not_num :: "jsnum \<Rightarrow> bool" where
  "not_num n = (n = Fin 0 \<or> n = NaN)"

subsection \<open>Strings\<close>

definition isWhiteSpace :: "char \<Rightarrow> bool" where
  "isWhiteSpace c =
     (c \<in> set [CHR 0x09, CHR 0x0A, CHR 0x0B, CHR 0x0C, CHR 0x0D, CHR 0x20, CHR 0xA0])"

text \<open>\<^verbatim>\<open>String.prototype.trim\<close>: white space is removed at both ends.\<close>

definition trim :: "string \<Rightarrow> string" where
  "trim s = rev (dropWhile isWhiteSpace (rev (dropWhile isWhiteSpace s)))"

text \<open>\<^verbatim>\<open>String.prototype.toLowerCase\<close> on Latin-1: the letters A to Z, and the
  accented capitals 0xC0 to 0xDE without the multiplication sign 0xD7, move up by 32.\<close>

definition lowerChar :: "char \<Rightarrow> char" where
  "lowerChar c =
     (let n = (of_char c :: nat)
      in if (65 \<le> n \<and> n \<le> 90) \<or> (192 \<le> n \<and> n \<le> 222 \<and> n \<noteq> 215)
         then char_of (n + 32) else c)"

definition toLowerCase :: "string \<Rightarrow> string" where
  "toLowerCase s = map lowerChar s"

text \<open>\<^verbatim>\<open>String.prototype.includes\<close>: the second string occurs in the first as a
  contiguous run, at some position.\<close>

fun includes_str :: "string \<Rightarrow> string \<Rightarrow> bool" where
  "includes_str [] k = (k = [])"
| "includes_str (c # s) k = (prefix k (c # s) \<or> includes_str s k)"

subsection \<open>String to number\<close>

definition isDigit :: "char \<Rightarrow> bool" where
  "isDigit c = (48 \<le> (of_char c :: nat) \<and> (of_char c :: nat) \<le> 57)"

text \<open>The value of a digit in a base up to 16, or \<open>None\<close> for any other character.\<close>

definition digitValue :: "nat \<Rightarrow> char \<Rightarrow> nat option" where
  "digitValue base c =
     (let n = (of_char c :: nat);
          v = (if 48 \<le> n \<and> n \<le> 57 then n - 48
               else if 97 \<le> n \<and> n \<le> 102 then n - 87
               else if 65 \<le> n \<and> n \<le> 70 then n - 55
               else 16)
      in if v < base then Some v else None)"

definition allDigits :: "nat \<Rightarrow> string \<Rightarrow> bool" where
  "allDigits base s = (s \<noteq> [] \<and> list_all (\<lambda>c. digitValue base c \<noteq> None) s)"

definition digitsValue :: "nat \<Rightarrow> string \<Rightarrow> nat" where
  "digitsValue base s =
     foldl (\<lambda>acc c. base * acc + (case digitValue base c of Some v \<Rightarrow> v | None \<Rightarrow> 0)) 0 s"

text \<open>A mantissa scaled by a power of ten: the exact value of a decimal literal.\<close>

definition scale10 :: "nat \<Rightarrow> int \<Rightarrow> real" where
  "scale10 m e = (if 0 \<le> e then real m * 10 ^ nat e else real m / 10 ^ nat (- e))"

text \<open>The grammar \<^verbatim>\<open>StrUnsignedDecimalLiteral\<close>: \<^verbatim>\<open>Infinity\<close>, or digits with an
  optional fraction and an optional exponent; at least one digit before the exponent.
  The number is the double nearest to the exact value of the literal.\<close>

definition StrUnsignedDecimalLiteral :: "string \<Rightarrow> jsnum" where
  "StrUnsignedDecimalLiteral s =
     (if s = ''Infinity'' then PosInf
      else
        let ip = takeWhile isDigit s;
            r1 = dropWhile isDigit s;
            hasDot = (r1 \<noteq> [] \<and> hd r1 = CHR ''.'');
            fp = (if hasDot then takeWhile isDigit (tl r1) else []);
            r2 = (if hasDot then dropWhile isDigit (tl r1) else r1);
            m = digitsValue 10 (ip @ fp)
        in if ip = [] \<and> fp = [] then NaN
           else if r2 = [] then to_double (scale10 m (- int (length fp)))
           else if hd r2 = CHR ''e'' \<or> hd r2 = CHR ''E'' then
             (let es = tl r2;
                  neg = (es \<noteq> [] \<and> hd es = CHR ''-'');
                  ds = (if es \<noteq> [] \<and> (hd es = CHR ''-'' \<or> hd es = CHR ''+'') then tl es else es)
              in if allDigits 10 ds
                 then to_double (scale10 m
                        ((if neg then - int (digitsValue 10 ds) else int (digitsValue 10 ds))
                          - int (length fp)))
                 else NaN)
           else NaN)"

text \<open>The abstract operation \<^verbatim>\<open>StringToNumber\<close>: the trimmed string is empty (zero),
  a binary, octal or hexadecimal integer without sign, or a signed decimal literal;
  anything else is \<open>NaN\<close>.\<close>

definition StringToNumber :: "string \<Rightarrow> jsnum" where
  "StringToNumber s =
     (let t = trim s
      in if t = [] then Fin 0
         else if prefix ''0x'' t \<or> prefix ''0X'' t then
           (if allDigits 16 (drop 2 t) then to_double (real (digitsValue 16 (drop 2 t)))
            else NaN)
         else if prefix ''0o'' t \<or> prefix ''0O'' t then
           (if allDigits 8 (drop 2 t) then to_double (real (digitsValue 8 (drop 2 t)))
            else NaN)
         else if prefix ''0b'' t \<or> prefix ''0B'' t then
           (if allDigits 2 (drop 2 t) then to_double (real (digitsValue 2 (drop 2 t)))
            else NaN)
         else if hd t = CHR ''+'' then StrUnsignedDecimalLiteral (tl t)
         else if hd t = CHR ''-'' then js_neg (StrUnsignedDecimalLiteral (tl t))
         else StrUnsignedDecimalLiteral t)"

subsection \<open>Dynamically typed values\<close>

text \<open>The values an answer can take (\<^verbatim>\<open>answer: any\<close>): what a request body can hold,
  and \<^verbatim>\<open>undefined\<close> for a field that is not there. An object is the list of its
  fields.\<close>

datatype jsval =
    JUndefined
  | JNull
  | JBool bool
  | JNum jsnum
  | JStr string
  | JArr "jsval list"
  | JObj "(string \<times> jsval) list"

text \<open>The only exception that the two functions can meet.\<close>

datatype error = TypeError

text \<open>Turning a value into a string throws a \<^verbatim>\<open>TypeError\<close> for an object with a field
  named \<^verbatim>\<open>toString\<close>: the field hides the method of that name, it is not a function
  since it comes from a request body, and the other method, \<^verbatim>\<open>valueOf\<close>, returns
  the object or is hidden in the same way. An object without that field prints as
  \<^verbatim>\<open>[object Object]\<close>. An array prints its elements, so it throws when one of them
  does.\<close>

fun not_printable :: "jsval \<Rightarrow> bool" where
  "not_printable (JObj fields) = (''toString'' \<in> set (map fst fields))"
| "not_printable (JArr xs) = list_ex not_printable xs"
| "not_printable _ = False"

text \<open>The number read from the string of an array that prints, its elements joined by
  commas: the empty array gives the empty string, hence zero; an array of one element
  gives that element's string (empty for \<^verbatim>\<open>undefined\<close> and \<^verbatim>\<open>null\<close>), and a number
  printed and read back is the same number; an array of two or more elements gives
  a string with a comma, which is no numeric literal.\<close>

fun number_of_join :: "jsval list \<Rightarrow> jsnum" where
  "number_of_join [] = Fin 0"
| "number_of_join [JUndefined] = Fin 0"
| "number_of_join [JNull] = Fin 0"
| "number_of_join [JBool b] = NaN"
| "number_of_join [JNum n] = n"
| "number_of_join [JStr s] = StringToNumber s"
| "number_of_join [JObj fields] = NaN"
| "number_of_join [JArr ys] = number_of_join ys"
| "number_of_join (x # y # zs) = NaN"

text \<open>\<^verbatim>\<open>Number(v)\<close>. An object or an array is first turned into a string, which may
  throw.\<close>

fun ToNumber :: "jsval \<Rightarrow> error + jsnum" where
  "ToNumber JUndefined = Inr NaN"
| "ToNumber JNull = Inr (Fin 0)"
| "ToNumber (JBool b) = Inr (if b then Fin 1 else Fin 0)"
| "ToNumber (JNum n) = Inr n"
| "ToNumber (JStr s) = Inr (StringToNumber s)"
| "ToNumber (JObj fields) = (if not_printable (JObj fields) then Inl TypeError else Inr NaN)"
| "ToNumber (JArr xs) =
     (if not_printable (JArr xs) then Inl TypeError else Inr (number_of_join xs))"

text \<open>\<^verbatim>\<open>===\<close>. Two arrays or objects are equal only when they are the same object,
  which a value read from a request never is with a field of a question.\<close>

definition StrictEq :: "jsval \<Rightarrow> jsval \<Rightarrow> bool" where
  "StrictEq a b =
     (case a of JArr _ \<Rightarrow> False | JObj _ \<Rightarrow> False | JNum NaN \<Rightarrow> False | _ \<Rightarrow> a = b)"

text \<open>The comparison \<^verbatim>\<open>SameValueZero\<close> of \<^verbatim>\<open>Set\<close>: as \<^verbatim>\<open>===\<close>, but \<open>NaN\<close> is
  the same as \<open>NaN\<close>.\<close>

definition SameValueZero :: "jsval \<Rightarrow> jsval \<Rightarrow> bool" where
  "SameValueZero a b = (case a of JArr _ \<Rightarrow> False | JObj _ \<Rightarrow> False | _ \<Rightarrow> a = b)"

text \<open>A \<^verbatim>\<open>Set\<close> is the list of its elements in insertion order, without repetition.\<close>

definition Set_has :: "jsval list \<Rightarrow> jsval \<Rightarrow> bool" where
  "Set_has s x = list_ex (\<lambda>y. SameValueZero y x) s"

definition Set_add :: "jsval list \<Rightarrow> jsval \<Rightarrow> jsval list" where
  "Set_add s x = (if Set_has s x then s else s @ [x])"

definition Set_new :: "jsval list \<Rightarrow> jsval list" where
  "Set_new xs = foldl Set_add [] xs"

subsection \<open>Questions\<close>

text \<open>An optional field of a question: absent (\<^verbatim>\<open>undefined\<close>), \<^verbatim>\<open>null\<close>, or given.\<close>

datatype 'a optional = Missing | IsNull | Given 'a

text \<open>The enumeration \<^verbatim>\<open>QuestionType\<close>, whose members are strings.\<close>

definition SINGLE_CHOICE :: string where
  "SINGLE_CHOICE = ''single_choice''"

definition MULTI_CHOICE :: string where
  "MULTI_CHOICE = ''multi_choice''"

definition NUMBER :: string where
  "NUMBER = ''number''"

definition TEXT :: string where
  "TEXT = ''text''"

definition QuestionType_values :: "string list" where
  "QuestionType_values = [SINGLE_CHOICE, MULTI_CHOICE, NUMBER, TEXT]"

text \<open>The interface \<^verbatim>\<open>Question\<close>, without \<^verbatim>\<open>id\<close>, which neither function reads.
  The fields \<^verbatim>\<open>text\<close>, \<^verbatim>\<open>type\<close>, \<^verbatim>\<open>min\<close> and \<^verbatim>\<open>max\<close> are \<open>qtext\<close>, \<open>qtype\<close>,
  \<open>qmin\<close> and \<open>qmax\<close> here. The field \<open>qtype\<close> is a string, which may be none of
  the four members of the enumeration.\<close>

record Question =
  qtext :: string
  qtype :: string
  points :: jsnum
  options :: "string list optional"
  correctOption :: "string optional"
  correctOptions :: "string list optional"
  qmin :: "jsnum optional"
  qmax :: "jsnum optional"
  "keywords" :: "string list optional"

text \<open>\<^verbatim>\<open>!s\<close> for an optional string: absent, \<^verbatim>\<open>null\<close> and the empty string are
  falsy. \<^verbatim>\<open>!xs\<close> for an optional array: every array is truthy, also the empty one.\<close>

definition not_str :: "string optional \<Rightarrow> bool" where
  "not_str v = (case v of Given s \<Rightarrow> s = [] | _ \<Rightarrow> True)"

definition not_arr :: "'a list optional \<Rightarrow> bool" where
  "not_arr v = (case v of Given xs \<Rightarrow> False | _ \<Rightarrow> True)"

text \<open>The value of a field that is known to be truthy.\<close>

definition given :: "'a list optional \<Rightarrow> 'a list" where
  "given v = (case v of Given xs \<Rightarrow> xs | _ \<Rightarrow> [])"

text \<open>An optional number as an operand of \<^verbatim>\<open><\<close>: \<^verbatim>\<open>null\<close> counts as zero and
  \<^verbatim>\<open>undefined\<close> as \<open>NaN\<close>.\<close>

definition operand :: "jsnum optional \<Rightarrow> jsnum" where
  "operand v = (case v of Missing \<Rightarrow> NaN | IsNull \<Rightarrow> Fin 0 | Given n \<Rightarrow> n)"

text \<open>\<^verbatim>\<open>v ?? d\<close>: the default replaces \<^verbatim>\<open>undefined\<close> and \<^verbatim>\<open>null\<close>.\<close>

definition nullish :: "jsnum optional \<Rightarrow> jsnum \<Rightarrow> jsnum" where
  "nullish v d = (case v of Given n \<Rightarrow> n | _ \<Rightarrow> d)"

text \<open>An optional string as a dynamically typed value.\<close>

definition str_val :: "string optional \<Rightarrow> jsval" where
  "str_val v = (case v of Missing \<Rightarrow> JUndefined | IsNull \<Rightarrow> JNull | Given s \<Rightarrow> JStr s)"

subsection \<open>Validation\<close>

text \<open>\<^verbatim>\<open>validateQuestion\<close>: the array \<^verbatim>\<open>errors\<close> starts empty and every failed check
  pushes its message at the end. The \<^verbatim>\<open>switch\<close> on the type runs after the three
  common checks and has no default case.\<close>

definition validateQuestion :: "Question \<Rightarrow> string list" where
  "validateQuestion question =
     (let errors = [];
          errors =
            (if qtext question = [] \<or> length (trim (qtext question)) = 0
             then errors @ [''Question text is required''] else errors);
          errors =
            (if qtype question = [] \<or> qtype question \<notin> set QuestionType_values
             then errors @ [''Invalid question type''] else errors);
          errors =
            (if not_num (points question) \<or> js_le (points question) (Fin 0)
             then errors @ [''Points must be greater than 0''] else errors)
      in if qtype question = SINGLE_CHOICE then
           (let errors =
                  (if not_str (correctOption question)
                   then errors @ [''correctOption is required for single_choice type'']
                   else errors);
                errors =
                  (if \<not> not_arr (options question) \<and> \<not> not_str (correctOption question) \<and>
                      (case correctOption question of
                         Given c \<Rightarrow> c \<notin> set (given (options question)) | _ \<Rightarrow> True)
                   then errors @ [''correctOption must be in options list'']
                   else errors)
            in errors)
         else if qtype question = MULTI_CHOICE then
           (let errors =
                  (if not_arr (correctOptions question) \<or>
                      length (given (correctOptions question)) = 0
                   then errors @ [''correctOptions is required for multi_choice type'']
                   else errors);
                errors =
                  (if \<not> not_arr (options question) \<and> \<not> not_arr (correctOptions question)
                   then
                     (let invalidOptions =
                            filter (\<lambda>opt. opt \<notin> set (given (options question)))
                              (given (correctOptions question))
                      in if length invalidOptions > 0
                         then errors @ [''All correctOptions must be in options list'']
                         else errors)
                   else errors)
            in errors)
         else if qtype question = NUMBER then
           (let errors =
                  (if qmin question = Missing \<or> qmin question = IsNull
                   then errors @ [''min is required for number type''] else errors);
                errors =
                  (if qmax question = Missing \<or> qmax question = IsNull
                   then errors @ [''max is required for number type''] else errors);
                errors =
                  (if qmin question \<noteq> Missing \<and> qmax question \<noteq> Missing \<and>
                      js_lt (operand (qmax question)) (operand (qmin question))
                   then errors @ [''max must be greater than or equal to min''] else errors)
            in errors)
         else if qtype question = TEXT then
           (let errors =
                  (if not_arr (keywords question) \<or> length (given (keywords question)) = 0
                   then errors @ [''keywords are required for text type''] else errors)
            in errors)
         else errors)"

subsection \<open>Scoring\<close>

text \<open>\<^verbatim>\<open>calculateScore\<close>. The result is the number returned, or the exception thrown:
  only \<^verbatim>\<open>Number(answer)\<close>, in the case of a number, can throw. In the case of a choice
  among several, the two sets are built from the correct options (or the empty array
  when the field is falsy) and from the answer; in the case of a text, the number of
  keywords is replaced by one when it is zero or when there is no keyword list. The
  size of a set and the length of an array are integers below \<open>2\<^sup>3\<^sup>2\<close>, which are
  doubles.\<close>

definition calculateScore :: "Question \<Rightarrow> jsval \<Rightarrow> error + jsnum" where
  "calculateScore question answer =
     (if qtype question = SINGLE_CHOICE then
        Inr (if StrictEq answer (str_val (correctOption question)) then points question
             else Fin 0)
      else if qtype question = MULTI_CHOICE then
        (case answer of
           JArr elems \<Rightarrow>
             (let correctSet = Set_new (map JStr (given (correctOptions question)));
                  answerSet = Set_new elems
              in if length correctSet = 0 then Inr (Fin 0)
                 else
                   (let intersection = length (filter (\<lambda>x. Set_has answerSet x) correctSet)
                    in Inr (js_mul (points question)
                         (js_div (Fin (real intersection)) (Fin (real (length correctSet)))))))
         | _ \<Rightarrow> Inr (Fin 0))
      else if qtype question = NUMBER then
        (case ToNumber answer of
           Inl e \<Rightarrow> Inl e
         | Inr numValue \<Rightarrow>
             if isNaN numValue then Inr (Fin 0)
             else
               (let mn = nullish (qmin question) NegInf;
                    mx = nullish (qmax question) PosInf
                in if js_ge numValue mn \<and> js_le numValue mx then Inr (points question)
                   else Inr (Fin 0)))
      else if qtype question = TEXT then
        (case answer of
           JStr s \<Rightarrow>
             (let answerLower = toLowerCase s;
                  matchedKeywords =
                    length (filter (\<lambda>keyword. includes_str answerLower (toLowerCase keyword))
                              (given (keywords question)));
                  totalKeywords =
                    (if length (given (keywords question)) = 0 then 1
                     else length (given (keywords question)))
              in Inr (js_mul (points question)
                   (js_div (Fin (real matchedKeywords)) (Fin (real totalKeywords)))))
         | _ \<Rightarrow> Inr (Fin 0))
      else Inr (Fin 0))"

subsection \<open>The rules of validation, as the specification lists them\<close>

text \<open>The messages of the three common checks and of the checks of each variant, in the
  order of the rules.\<close>

definition common_messages :: "string list" where
  "common_messages =
     [''Question text is required'',
      ''Invalid question type'',
      ''Points must be greater than 0'']"

definition variant_messages :: "string list" where
  "variant_messages =
     [''correctOption is required for single_choice type'',
      ''correctOption must be in options list'',
      ''correctOptions is required for multi_choice type'',
      ''All correctOptions must be in options list'',
      ''min is required for number type'',
      ''max is required for number type'',
      ''max must be greater than or equal to min'',
      ''keywords are required for text type'']"

definition all_messages :: "string list" where
  "all_messages = common_messages @ variant_messages"

text \<open>The rules a valid question satisfies, in the words of the specification: a field
  is present when it is given, whatever its value.\<close>

definition rules_as_specified :: "Question \<Rightarrow> bool" where
  "rules_as_specified q =
     (trim (qtext q) \<noteq> [] \<and>
      qtype q \<in> set QuestionType_values \<and>
      js_lt (Fin 0) (points q) \<and>
      (qtype q = SINGLE_CHOICE \<longrightarrow>
         (case correctOption q of
            Given c \<Rightarrow> (case options q of Given os \<Rightarrow> c \<in> set os | _ \<Rightarrow> True)
          | _ \<Rightarrow> False)) \<and>
      (qtype q = MULTI_CHOICE \<longrightarrow>
         (case correctOptions q of
            Given cs \<Rightarrow>
              cs \<noteq> [] \<and> (case options q of Given os \<Rightarrow> set cs \<subseteq> set os | _ \<Rightarrow> True)
          | _ \<Rightarrow> False)) \<and>
      (qtype q = NUMBER \<longrightarrow>
         (case qmin q of
            Given lo \<Rightarrow> (case qmax q of Given hi \<Rightarrow> js_ge hi lo | _ \<Rightarrow> False)
          | _ \<Rightarrow> False)) \<and>
      (qtype q = TEXT \<longrightarrow>
         (case keywords q of Given ks \<Rightarrow> ks \<noteq> [] | _ \<Rightarrow> False)))"

text \<open>The rules the code checks. They differ from the ones above in two places: the
  correct option of a single choice must be a non-empty string, and the range of a
  number is rejected when the maximum is less than the minimum (which is not the same as
  accepting it when the maximum is at least the minimum, should a bound be \<open>NaN\<close>).\<close>

definition rules_as_checked :: "Question \<Rightarrow> bool" where
  "rules_as_checked q =
     (trim (qtext q) \<noteq> [] \<and>
      qtype q \<in> set QuestionType_values \<and>
      js_lt (Fin 0) (points q) \<and>
      (qtype q = SINGLE_CHOICE \<longrightarrow>
         (case correctOption q of
            Given c \<Rightarrow>
              c \<noteq> [] \<and> (case options q of Given os \<Rightarrow> c \<in> set os | _ \<Rightarrow> True)
          | _ \<Rightarrow> False)) \<and>
      (qtype q = MULTI_CHOICE \<longrightarrow>
         (case correctOptions q of
            Given cs \<Rightarrow>
              cs \<noteq> [] \<and> (case options q of Given os \<Rightarrow> set cs \<subseteq> set os | _ \<Rightarrow> True)
          | _ \<Rightarrow> False)) \<and>
      (qtype q = NUMBER \<longrightarrow>
         (case qmin q of
            Given lo \<Rightarrow> (case qmax q of Given hi \<Rightarrow> \<not> js_lt hi lo | _ \<Rightarrow> False)
          | _ \<Rightarrow> False)) \<and>
      (qtype q = TEXT \<longrightarrow>
         (case keywords q of Given ks \<Rightarrow> ks \<noteq> [] | _ \<Rightarrow> False)))"

text \<open>The errors of the three checks that do not depend on the variant, with each
  condition in its shortest form. This is a notion of the proofs: the lemmas on the
  shape of the list of errors relate it to \<open>validateQuestion\<close>.\<close>

definition commonErrors :: "Question \<Rightarrow> string list" where
  "commonErrors q =
     (if trim (qtext q) = [] then [''Question text is required''] else []) @
     (if qtype q \<notin> set QuestionType_values then [''Invalid question type''] else []) @
     (if \<not> js_lt (Fin 0) (points q) then [''Points must be greater than 0''] else [])"

subsection \<open>Notions used to state the scores\<close>

text \<open>The formula of the specification for a proportional score, in exact arithmetic:
  the points times the number of hits, divided by the number of items.\<close>

definition exact_score :: "real \<Rightarrow> nat \<Rightarrow> nat \<Rightarrow> real" where
  "exact_score p hits n = p * real hits / real n"

text \<open>An answer that earns no credit at all where credit is proportional: a sequence that
  holds none of the correct options of a choice among several, or a string in which
  none of the keywords of a text occurs.\<close>

definition no_credit :: "Question \<Rightarrow> jsval \<Rightarrow> bool" where
  "no_credit q a =
     (case a of
        JArr elems \<Rightarrow>
          qtype q = MULTI_CHOICE \<and>
          (\<forall>c \<in> set (given (correctOptions q)). JStr c \<notin> set elems)
      | JStr s \<Rightarrow>
          qtype q = TEXT \<and>
          (\<forall>k \<in> set (given (keywords q)).
              \<not> includes_str (toLowerCase s) (toLowerCase k))
      | _ \<Rightarrow> False)"

text \<open>What the types of the language guarantee of a question: finite points are a
  double, and an array has fewer than \<open>2\<^sup>3\<^sup>2\<close> elements.\<close>

definition representable :: "Question \<Rightarrow> bool" where
  "representable q =
     ((case points q of Fin p \<Rightarrow> is_double p | _ \<Rightarrow> True) \<and>
      length (given (correctOptions q)) < 2 ^ 32 \<and>
      length (given (keywords q)) < 2 ^ 32)"

subsection \<open>The questions of the test suite\<close>

text \<open>The four questions of the job that the scoring tests create.\<close>

definition single_choice_question :: Question where
  "single_choice_question =
     \<lparr>qtext = ''What is 2+2?'', qtype = ''single_choice'', points = Fin 10,
      options = Given [''3'', ''4'', ''5''], correctOption = Given ''4'',
      correctOptions = Missing, qmin = Missing, qmax = Missing, keywords = Missing\<rparr>"

definition multi_choice_question :: Question where
  "multi_choice_question =
     \<lparr>qtext = ''Select all even numbers'', qtype = ''multi_choice'', points = Fin 10,
      options = Given [''1'', ''2'', ''3'', ''4''], correctOption = Missing,
      correctOptions = Given [''2'', ''4''], qmin = Missing, qmax = Missing,
      keywords = Missing\<rparr>"

definition number_question :: Question where
  "number_question =
     \<lparr>qtext = ''Years of experience?'', qtype = ''number'', points = Fin 10,
      options = Missing, correctOption = Missing, correctOptions = Missing,
      qmin = Given (Fin 0), qmax = Given (Fin 20), keywords = Missing\<rparr>"

definition text_question :: Question where
  "text_question =
     \<lparr>qtext = ''Describe your skills'', qtype = ''text'', points = Fin 10,
      options = Missing, correctOption = Missing, correctOptions = Missing,
      qmin = Missing, qmax = Missing,
      keywords = Given [''typescript'', ''node'', ''testing'']\<rparr>"

section \<open>Auxiliary facts\<close>

subsection \<open>Sets of strings\<close>

lemma SameValueZero_eq: "SameValueZero y x \<Longrightarrow> y = x"
  by (auto simp: SameValueZero_def split: jsval.splits)

lemma SameValueZero_JStr: "SameValueZero y (JStr v) \<longleftrightarrow> y = JStr v"
  by (auto simp: SameValueZero_def split: jsval.splits)

lemma Set_has_JStr: "Set_has s (JStr v) \<longleftrightarrow> JStr v \<in> set s"
  by (auto simp: Set_has_def list_ex_iff SameValueZero_JStr)

lemma Set_has_mem: "Set_has s x \<Longrightarrow> x \<in> set s"
  by (auto simp: Set_has_def list_ex_iff dest: SameValueZero_eq)

lemma JStr_in_Set_add: "JStr v \<in> set (Set_add s x) \<longleftrightarrow> JStr v \<in> set s \<or> x = JStr v"
  by (auto simp: Set_add_def dest: Set_has_mem)

lemma JStr_in_foldl_Set_add:
  "JStr v \<in> set (foldl Set_add s xs) \<longleftrightarrow> JStr v \<in> set s \<or> JStr v \<in> set xs"
  by (induction xs arbitrary: s) (auto simp: JStr_in_Set_add)

lemma Set_new_has_JStr: "Set_has (Set_new xs) (JStr v) \<longleftrightarrow> JStr v \<in> set xs"
  by (simp add: Set_has_JStr Set_new_def JStr_in_foldl_Set_add)

lemma foldl_Set_add_strings:
  "distinct s \<Longrightarrow>
   distinct (foldl Set_add s (map JStr cs)) \<and>
   set (foldl Set_add s (map JStr cs)) = set s \<union> JStr ` set cs"
proof (induction cs arbitrary: s)
  case Nil
  then show ?case by simp
next
  case (Cons c cs)
  have "distinct (Set_add s (JStr c))"
    using Cons.prems by (simp add: Set_add_def Set_has_JStr)
  from Cons.IH [OF this] show ?case
    by (auto simp: Set_add_def Set_has_JStr)
qed

lemma Set_new_strings:
  "distinct (Set_new (map JStr cs))" "set (Set_new (map JStr cs)) = JStr ` set cs"
  using foldl_Set_add_strings [of "[]" cs] by (simp_all add: Set_new_def)

lemma Set_new_strings_size: "length (Set_new (map JStr cs)) = card (JStr ` set cs)"
  using Set_new_strings [of cs] by (metis distinct_card)

lemma Set_new_strings_Nil: "Set_new (map JStr cs) = [] \<longleftrightarrow> cs = []"
  using Set_new_strings(2) [of cs] by (metis image_is_empty set_empty)

lemma intersection_size:
  "length (filter (\<lambda>x. Set_has (Set_new elems) x) (Set_new (map JStr cs)))
     = card (JStr ` set cs \<inter> set elems)"
proof -
  let ?C = "Set_new (map JStr cs)"
  have "length (filter (\<lambda>x. Set_has (Set_new elems) x) ?C)
          = card {x \<in> set ?C. Set_has (Set_new elems) x}"
    using Set_new_strings(1) [of cs] by (simp add: distinct_length_filter Int_def conj_commute)
  also have "{x \<in> set ?C. Set_has (Set_new elems) x} = JStr ` set cs \<inter> set elems"
    by (auto simp: Set_new_strings(2) Set_new_has_JStr)
  finally show ?thesis .
qed

subsection \<open>Rounding to a double\<close>

lemmas double_eval =
  to_double_def round_pos_def binade_def min_normal_def overflow_def expo_def expo_hi.simps
  expo_lo.simps rne_def Let_def

lemmas number_eval =
  StringToNumber_def trim_def isWhiteSpace_def StrUnsignedDecimalLiteral_def isDigit_def
  allDigits_def digitsValue_def digitValue_def scale10_def

lemma expo_hi_bounds: "1 \<le> x \<Longrightarrow> 2 powi (expo_hi x) \<le> x \<and> x < 2 powi (expo_hi x + 1)"
proof (induction x rule: expo_hi.induct)
  case (1 x)
  show ?case
  proof (cases "x < 2")
    case True
    with "1.prems" show ?thesis by (simp add: expo_hi.simps)
  next
    case False
    then have "1 \<le> x / 2" by simp
    with "1.IH" False have ih: "2 powi (expo_hi (x / 2)) \<le> x / 2"
      "x / 2 < 2 powi (expo_hi (x / 2) + 1)" by auto
    have e: "expo_hi x = expo_hi (x / 2) + 1"
      using False by (subst expo_hi.simps) simp
    have p: "2 powi (k + 1) = 2 * (2 powi k :: real)" for k
      by (simp add: power_int_add)
    have "2 powi (expo_hi (x / 2) + 1) \<le> x"
      using ih(1) by (simp add: p)
    moreover have "x < 2 powi (expo_hi (x / 2) + 1 + 1)"
      using ih(2) by (simp only: p [of "expo_hi (x / 2) + 1"])
    ultimately show ?thesis
      unfolding e by simp
  qed
qed

lemma expo_lo_bounds:
  "0 < x \<Longrightarrow> x < 1 \<Longrightarrow> 2 powi (expo_lo x) \<le> x \<and> x < 2 powi (expo_lo x + 1)"
proof (induction x rule: expo_lo.induct)
  case (1 x)
  have p: "2 powi (k + 1) = 2 * (2 powi k :: real)" for k
    by (simp add: power_int_add)
  have e: "expo_lo x = expo_lo (2 * x) - 1"
    using "1.prems" by (subst expo_lo.simps) simp
  show ?case
  proof (cases "2 * x < 1")
    case True
    with "1.IH" "1.prems" have ih: "2 powi (expo_lo (2 * x)) \<le> 2 * x"
      "2 * x < 2 powi (expo_lo (2 * x) + 1)" by auto
    from ih p [of "expo_lo (2 * x) - 1"] p [of "expo_lo (2 * x)"] show ?thesis
      unfolding e by simp
  next
    case False
    then have "expo_lo (2 * x) = 0"
      by (subst expo_lo.simps) simp
    with e have "expo_lo x = - 1" by simp
    with False "1.prems" show ?thesis by simp
  qed
qed

lemma expo_bounds: "0 < x \<Longrightarrow> 2 powi (expo x) \<le> x \<and> x < 2 powi (expo x + 1)"
  using expo_hi_bounds [of x] expo_lo_bounds [of x] by (auto simp: expo_def)

lemma powi_less_imp: "(2::real) powi a < 2 powi b \<Longrightarrow> a < b"
proof (rule ccontr)
  assume "(2::real) powi a < 2 powi b" and "\<not> a < b"
  then have "b \<le> a" by simp
  then have "(2::real) powi b \<le> 2 powi a" by (rule power_int_increasing) simp
  with \<open>(2::real) powi a < 2 powi b\<close> show False by simp
qed

lemma expo_mono:
  assumes "0 < x" "x \<le> d"
  shows "expo x \<le> expo d"
proof -
  have "2 powi (expo x) \<le> x" using expo_bounds [OF assms(1)] by simp
  also have "x \<le> d" by fact
  also have "d < 2 powi (expo d + 1)" using expo_bounds [of d] assms by simp
  finally have "(2::real) powi (expo x) < 2 powi (expo d + 1)" .
  then have "expo x < expo d + 1" by (rule powi_less_imp)
  then show ?thesis by simp
qed

lemma rne_nonneg: "0 \<le> y \<Longrightarrow> 0 \<le> rne y"
  by (auto simp: rne_def Let_def)

lemma rne_le: "y \<le> of_int N \<Longrightarrow> rne y \<le> N"
proof -
  assume a: "y \<le> of_int N"
  then have f: "\<lfloor>y\<rfloor> \<le> N" by (simp add: floor_le_iff)
  show ?thesis
  proof (cases "y - of_int \<lfloor>y\<rfloor> < 1 / 2")
    case True
    with f show ?thesis by (simp add: rne_def Let_def)
  next
    case False
    then have "of_int \<lfloor>y\<rfloor> < y" by linarith
    with a have "of_int \<lfloor>y\<rfloor> < (of_int N :: real)" by linarith
    then have "\<lfloor>y\<rfloor> < N" by simp
    then show ?thesis by (auto simp: rne_def Let_def)
  qed
qed

lemma rne_ge: "of_int N \<le> y \<Longrightarrow> N \<le> rne y"
proof -
  assume "of_int N \<le> y"
  then have "N \<le> \<lfloor>y\<rfloor>" by (simp add: le_floor_iff)
  then show ?thesis by (auto simp: rne_def Let_def)
qed

lemma min_normal_powi: "min_normal = 2 powi (- 1022)"
  unfolding min_normal_def by (simp only: power_int_minus power_int_numeral inverse_eq_divide)

lemma min_normal_pos: "0 < min_normal"
  unfolding min_normal_powi by simp

lemma binade_mono:
  assumes "0 < x" "x \<le> d"
  shows "binade x \<le> binade d"
proof (cases "x < min_normal")
  case True
  show ?thesis
  proof (cases "d < min_normal")
    case True
    with \<open>x < min_normal\<close> show ?thesis by (simp add: binade_def)
  next
    case False
    then have "2 powi (- 1022) \<le> d" by (simp only: min_normal_powi not_less)
    also have "d < 2 powi (expo d + 1)" using expo_bounds [of d] assms by simp
    finally have "(2::real) powi (- 1022) < 2 powi (expo d + 1)" .
    then have "- 1022 < expo d + 1" by (rule powi_less_imp)
    with True False show ?thesis by (simp add: binade_def)
  qed
next
  case False
  with assms have "\<not> d < min_normal" by linarith
  with False expo_mono [OF assms] show ?thesis by (simp add: binade_def)
qed

lemma round_pos_Fin:
  assumes "round_pos d = Fin d"
  shows "d < overflow"
    and "d = 2 powi (binade d - 52) * of_int (rne (d / 2 powi (binade d - 52)))"
  using assms by (auto simp: round_pos_def Let_def split: if_splits)

text \<open>Rounding a positive number does not pass a double above it.\<close>

lemma round_le_double:
  assumes "0 < x" "x \<le> d" "to_double d = Fin d"
  shows "\<exists>y. to_double x = Fin y \<and> 0 \<le> y \<and> y \<le> d"
proof -
  from assms have d: "0 < d" by linarith
  with assms(3) have rd: "round_pos d = Fin d" by (simp add: to_double_def)
  let ?ux = "2 powi (binade x - 52) :: real"
  let ?ud = "2 powi (binade d - 52) :: real"
  let ?M = "rne (d / ?ud)"
  let ?n = "nat (binade d - binade x)"
  have ux: "0 < ?ux" by simp
  have le: "binade x \<le> binade d" using assms(1,2) by (rule binade_mono)
  have "?ud = 2 powi ((binade x - 52) + (binade d - binade x))" by simp
  also have "\<dots> = ?ux * 2 powi (binade d - binade x)"
    by (rule power_int_add) simp
  also have "2 powi (binade d - binade x) = (2::real) ^ ?n"
    using le by (simp add: power_int_def)
  finally have ud: "?ud = ?ux * 2 ^ ?n" .
  have "d = ?ud * of_int ?M" using round_pos_Fin(2) [OF rd] .
  then have dN: "d = ?ux * of_int (?M * 2 ^ ?n)"
    by (simp add: ud mult_ac)
  have "x / ?ux \<le> d / ?ux"
    using assms(2) ux by (simp add: divide_right_mono)
  also have "d / ?ux = of_int (?M * 2 ^ ?n)"
    using ux by (subst dN) simp
  finally have "rne (x / ?ux) \<le> ?M * 2 ^ ?n" by (rule rne_le)
  then have "(of_int (rne (x / ?ux)) :: real) \<le> of_int (?M * 2 ^ ?n)"
    by (simp only: of_int_le_iff)
  then have "?ux * of_int (rne (x / ?ux)) \<le> ?ux * of_int (?M * 2 ^ ?n)"
    using ux by (simp add: mult_left_mono)
  with dN have upper: "?ux * of_int (rne (x / ?ux)) \<le> d" by simp
  have "0 \<le> x / ?ux" using assms(1) ux by simp
  then have "0 \<le> rne (x / ?ux)" by (rule rne_nonneg)
  then have lower: "0 \<le> ?ux * of_int (rne (x / ?ux))" using ux by simp
  have lt: "d < overflow" using round_pos_Fin(1) [OF rd] .
  with assms(2) have "\<not> overflow \<le> x" by linarith
  moreover from upper lt have "\<not> overflow \<le> ?ux * of_int (rne (x / ?ux))" by linarith
  ultimately have "round_pos x = Fin (?ux * of_int (rne (x / ?ux)))"
    by (simp add: round_pos_def Let_def)
  with assms(1) upper lower show ?thesis by (simp add: to_double_def)
qed

text \<open>Rounding a number that is at least the smallest normal number does not reach
  zero.\<close>

lemma round_normal_positive:
  assumes "min_normal \<le> x" "to_double x = Fin y"
  shows "0 < y"
proof -
  have x: "0 < x" using assms(1) min_normal_pos by linarith
  let ?ux = "2 powi (binade x - 52) :: real"
  have b: "binade x = expo x" using assms(1) by (simp add: binade_def)
  have "?ux \<le> 2 powi (expo x)"
    unfolding b by (rule power_int_increasing) simp_all
  also have "\<dots> \<le> x" using expo_bounds [OF x] by simp
  finally have "of_int 1 \<le> x / ?ux" by simp
  then have "1 \<le> rne (x / ?ux)" by (rule rne_ge)
  then have "0 < ?ux * of_int (rne (x / ?ux))" by simp
  moreover from assms(2) x have "round_pos x = Fin y" by (simp add: to_double_def)
  then have "y = ?ux * of_int (rne (x / ?ux))"
    by (auto simp: round_pos_def Let_def split: if_splits)
  ultimately show ?thesis by simp
qed

lemma to_double_one: "to_double 1 = Fin 1"
  by (simp add: double_eval)

subsection \<open>Arithmetic\<close>

lemma points_check: "(not_num p \<or> js_le p (Fin 0)) = (\<not> js_lt (Fin 0) p)"
  by (cases p) (auto simp: not_num_def)

lemma positive_points: "js_lt (Fin 0) p \<Longrightarrow> p = PosInf \<or> (\<exists>x. p = Fin x \<and> 0 < x)"
  by (cases p) auto

text \<open>A part of a whole, as a double, lies between zero and one, and is zero only when
  the part is empty.\<close>

lemma fraction_double:
  assumes "k \<le> n" "0 < n"
  shows "\<exists>r. js_div (Fin (real k)) (Fin (real n)) = Fin r \<and> 0 \<le> r \<and> r \<le> 1"
proof (cases "k = 0")
  case True
  with assms(2) show ?thesis by (simp add: to_double_def)
next
  case False
  then have "0 < real k / real n" using assms(2) by simp
  moreover have "real k / real n \<le> 1" using assms by simp
  ultimately obtain y where "to_double (real k / real n) = Fin y" "0 \<le> y" "y \<le> 1"
    using round_le_double [OF _ _ to_double_one] by blast
  with assms(2) show ?thesis by simp
qed

lemma fraction_positive:
  assumes "0 < k" "k \<le> n" "n < 2 ^ 32" "js_div (Fin (real k)) (Fin (real n)) = Fin r"
  shows "0 < r"
proof -
  have n: "0 < n" using assms(1,2) by simp
  have "real n \<le> real (2 ^ 32)" using assms(3) by (simp only: of_nat_le_iff less_imp_le)
  then have "real n \<le> 2 ^ 32" by simp
  also have "(2::real) ^ 32 \<le> 2 ^ 1022" by (rule power_increasing) simp_all
  finally have "1 / 2 ^ 1022 \<le> 1 / real n"
    using n by (simp add: frac_le)
  also have "1 / real n \<le> real k / real n"
    using assms(1) n by (simp add: divide_right_mono)
  finally have "min_normal \<le> real k / real n" by (simp only: min_normal_def)
  moreover have "to_double (real k / real n) = Fin r"
    using assms(4) n by simp
  ultimately show ?thesis by (rule round_normal_positive)
qed

text \<open>Finite positive points times a fraction between zero and one lie between zero
  and the points.\<close>

lemma product_double:
  assumes "is_double p" "0 < p" "0 \<le> r" "r \<le> 1"
  shows "\<exists>s. js_mul (Fin p) (Fin r) = Fin s \<and> 0 \<le> s \<and> s \<le> p"
proof (cases "r = 0")
  case True
  with assms(2) show ?thesis by (simp add: to_double_def)
next
  case False
  with assms have "0 < p * r" by simp
  moreover have "p * r \<le> p" using assms(2,4) by simp
  moreover have "to_double p = Fin p" using assms(1) by (simp add: is_double_def)
  ultimately show ?thesis
    using round_le_double [of "p * r" p] by simp
qed

text \<open>The score of a part of a whole: within the points when these are finite; when
  they are infinite, \<open>NaN\<close> for the empty part and infinite otherwise.\<close>

lemma proportional_finite:
  assumes "is_double p" "0 < p" "k \<le> n" "0 < n"
  shows "\<exists>s. js_mul (Fin p) (js_div (Fin (real k)) (Fin (real n))) = Fin s \<and> 0 \<le> s \<and> s \<le> p"
proof -
  obtain r where "js_div (Fin (real k)) (Fin (real n)) = Fin r" "0 \<le> r" "r \<le> 1"
    using fraction_double [OF assms(3,4)] by blast
  with product_double [OF assms(1,2), of r] show ?thesis by simp
qed

lemma proportional_infinite:
  assumes "k \<le> n" "0 < n" "n < 2 ^ 32"
  shows "js_mul PosInf (js_div (Fin (real k)) (Fin (real n))) = (if k = 0 then NaN else PosInf)"
proof -
  obtain r where r: "js_div (Fin (real k)) (Fin (real n)) = Fin r" "0 \<le> r"
    using fraction_double [OF assms(1,2)] by blast
  show ?thesis
  proof (cases "k = 0")
    case True
    with assms(2) show ?thesis by (simp add: to_double_def)
  next
    case False
    then have "0 < r" using fraction_positive [OF _ assms(1,3) r(1)] by simp
    with False r(1) show ?thesis by simp
  qed
qed

subsection \<open>The types of question\<close>

lemmas type_defs = SINGLE_CHOICE_def MULTI_CHOICE_def NUMBER_def TEXT_def QuestionType_values_def

lemma type_neq:
  "SINGLE_CHOICE \<noteq> MULTI_CHOICE" "SINGLE_CHOICE \<noteq> NUMBER" "SINGLE_CHOICE \<noteq> TEXT"
  "MULTI_CHOICE \<noteq> SINGLE_CHOICE" "MULTI_CHOICE \<noteq> NUMBER" "MULTI_CHOICE \<noteq> TEXT"
  "NUMBER \<noteq> SINGLE_CHOICE" "NUMBER \<noteq> MULTI_CHOICE" "NUMBER \<noteq> TEXT"
  "TEXT \<noteq> SINGLE_CHOICE" "TEXT \<noteq> MULTI_CHOICE" "TEXT \<noteq> NUMBER"
  by (simp_all add: type_defs)

lemma type_cases:
  "qtype q = SINGLE_CHOICE \<or> qtype q = MULTI_CHOICE \<or> qtype q = NUMBER \<or> qtype q = TEXT \<or>
   qtype q \<notin> set QuestionType_values"
  by (auto simp: QuestionType_values_def)

lemma type_known:
  "SINGLE_CHOICE \<in> set QuestionType_values" "MULTI_CHOICE \<in> set QuestionType_values"
  "NUMBER \<in> set QuestionType_values" "TEXT \<in> set QuestionType_values"
  by (simp_all add: QuestionType_values_def)

subsection \<open>The shape of the list of errors\<close>

lemma trim_Nil: "trim [] = []"
  by (simp add: trim_def)

lemma text_check: "(s = [] \<or> length (trim s) = 0) = (trim s = [])"
  by (auto simp: trim_Nil)

lemma type_check: "(t = [] \<or> t \<notin> set QuestionType_values) = (t \<notin> set QuestionType_values)"
  by (auto simp: type_defs)

lemma invalidOptions_check:
  "(length (filter (\<lambda>opt. opt \<notin> set os) cs) > 0) = (\<not> set cs \<subseteq> set os)"
  by (auto simp: filter_empty_conv)

lemma validate_single:
  assumes "qtype q = SINGLE_CHOICE"
  shows "validateQuestion q = commonErrors q @
     (if not_str (correctOption q)
      then [''correctOption is required for single_choice type''] else []) @
     (if \<not> not_arr (options q) \<and> \<not> not_str (correctOption q) \<and>
         (case correctOption q of Given c \<Rightarrow> c \<notin> set (given (options q)) | _ \<Rightarrow> True)
      then [''correctOption must be in options list''] else [])"
  unfolding validateQuestion_def Let_def commonErrors_def points_check text_check type_check
  by (simp add: assms)

lemma validate_multi:
  assumes "qtype q = MULTI_CHOICE"
  shows "validateQuestion q = commonErrors q @
     (if not_arr (correctOptions q) \<or> given (correctOptions q) = []
      then [''correctOptions is required for multi_choice type''] else []) @
     (if \<not> not_arr (options q) \<and> \<not> not_arr (correctOptions q) \<and>
         \<not> set (given (correctOptions q)) \<subseteq> set (given (options q))
      then [''All correctOptions must be in options list''] else [])"
  unfolding validateQuestion_def Let_def commonErrors_def points_check text_check type_check
    invalidOptions_check
  by (simp add: assms type_neq)

lemma validate_number:
  assumes "qtype q = NUMBER"
  shows "validateQuestion q = commonErrors q @
     (if qmin q = Missing \<or> qmin q = IsNull then [''min is required for number type''] else []) @
     (if qmax q = Missing \<or> qmax q = IsNull then [''max is required for number type''] else []) @
     (if qmin q \<noteq> Missing \<and> qmax q \<noteq> Missing \<and> js_lt (operand (qmax q)) (operand (qmin q))
      then [''max must be greater than or equal to min''] else [])"
  unfolding validateQuestion_def Let_def commonErrors_def points_check text_check type_check
  by (simp add: assms type_neq)

lemma validate_text:
  assumes "qtype q = TEXT"
  shows "validateQuestion q = commonErrors q @
     (if not_arr (keywords q) \<or> given (keywords q) = []
      then [''keywords are required for text type''] else [])"
  unfolding validateQuestion_def Let_def commonErrors_def points_check text_check type_check
  by (simp add: assms type_neq)

lemma validate_unknown:
  assumes "qtype q \<notin> set QuestionType_values"
  shows "validateQuestion q = commonErrors q"
proof -
  from assms have "qtype q \<noteq> SINGLE_CHOICE" "qtype q \<noteq> MULTI_CHOICE" "qtype q \<noteq> NUMBER"
    "qtype q \<noteq> TEXT"
    by (auto simp: QuestionType_values_def)
  then show ?thesis
    unfolding validateQuestion_def Let_def commonErrors_def points_check text_check type_check
    by simp
qed

lemma commonErrors_Nil:
  "commonErrors q = [] \<longleftrightarrow>
     trim (qtext q) \<noteq> [] \<and> qtype q \<in> set QuestionType_values \<and> js_lt (Fin 0) (points q)"
  by (simp add: commonErrors_def)

lemma valid_common: "validateQuestion q = [] \<Longrightarrow> commonErrors q = []"
  using type_cases [of q]
  by (auto simp: validate_single validate_multi validate_number validate_text validate_unknown)

subsection \<open>The score of each variant\<close>

lemma calculateScore_single:
  assumes "qtype q = SINGLE_CHOICE"
  shows "calculateScore q a =
           Inr (if StrictEq a (str_val (correctOption q)) then points q else Fin 0)"
  using assms by (simp add: calculateScore_def)

lemma calculateScore_multi:
  assumes "qtype q = MULTI_CHOICE"
  shows "calculateScore q (JArr elems) =
           Inr (if given (correctOptions q) = [] then Fin 0
                else js_mul (points q)
                   (js_div
                      (Fin (real (card (JStr ` set (given (correctOptions q)) \<inter> set elems))))
                      (Fin (real (card (JStr ` set (given (correctOptions q))))))))"
  using assms type_neq
  by (simp add: calculateScore_def Let_def intersection_size Set_new_strings_size
        Set_new_strings_Nil del: js_mul.simps js_div.simps)

lemma calculateScore_multi_other:
  assumes "qtype q = MULTI_CHOICE" "\<And>elems. a \<noteq> JArr elems"
  shows "calculateScore q a = Inr (Fin 0)"
proof (cases a)
  case (JArr elems)
  with assms(2) show ?thesis by blast
qed (use assms(1) type_neq in \<open>simp_all add: calculateScore_def\<close>)

lemma calculateScore_number:
  assumes "qtype q = NUMBER"
  shows "calculateScore q a =
           (case ToNumber a of
              Inl e \<Rightarrow> Inl e
            | Inr v \<Rightarrow>
                Inr (if v = NaN then Fin 0
                     else if js_le (nullish (qmin q) NegInf) v \<and>
                             js_le v (nullish (qmax q) PosInf)
                          then points q else Fin 0))"
  using assms type_neq
  by (simp add: calculateScore_def Let_def isNaN_def js_ge_def split: sum.splits)

lemma calculateScore_text:
  assumes "qtype q = TEXT"
  shows "calculateScore q (JStr s) =
           Inr (js_mul (points q)
             (js_div
                (Fin (real (length (filter (\<lambda>k. includes_str (toLowerCase s) (toLowerCase k))
                                      (given (keywords q))))))
                (Fin (real (if given (keywords q) = [] then 1
                            else length (given (keywords q)))))))"
  using assms type_neq
  by (simp add: calculateScore_def Let_def del: js_mul.simps js_div.simps)

lemma calculateScore_text_other:
  assumes "qtype q = TEXT" "\<And>s. a \<noteq> JStr s"
  shows "calculateScore q a = Inr (Fin 0)"
proof (cases a)
  case (JStr s)
  with assms(2) show ?thesis by blast
qed (use assms(1) type_neq in \<open>simp_all add: calculateScore_def\<close>)

lemma calculateScore_unknown:
  assumes "qtype q \<notin> set QuestionType_values"
  shows "calculateScore q a = Inr (Fin 0)"
  using assms by (auto simp: calculateScore_def QuestionType_values_def)

text \<open>A valid question has something to match.\<close>

lemma valid_multi_nonempty:
  assumes "validateQuestion q = []" "qtype q = MULTI_CHOICE"
  shows "given (correctOptions q) \<noteq> []"
  using assms(1) by (auto simp: validate_multi [OF assms(2)] split: if_splits)

lemma valid_text_nonempty:
  assumes "validateQuestion q = []" "qtype q = TEXT"
  shows "given (keywords q) \<noteq> []"
  using assms(1) by (auto simp: validate_text [OF assms(2)] split: if_splits)

text \<open>An answer without credit, in terms of the numbers that the score is made of.\<close>

lemma no_credit_multi:
  assumes "qtype q = MULTI_CHOICE"
  shows "no_credit q (JArr elems) \<longleftrightarrow>
           card (JStr ` set (given (correctOptions q)) \<inter> set elems) = 0"
  using assms by (auto simp: no_credit_def)

lemma no_credit_text:
  assumes "qtype q = TEXT"
  shows "no_credit q (JStr s) \<longleftrightarrow>
           length (filter (\<lambda>k. includes_str (toLowerCase s) (toLowerCase k))
                     (given (keywords q))) = 0"
  using assms by (auto simp: no_credit_def filter_empty_conv)

lemma no_credit_other:
  assumes "\<And>elems. a \<noteq> JArr elems" "\<And>s. a \<noteq> JStr s"
  shows "\<not> no_credit q a"
proof (cases a)
  case (JArr elems)
  with assms(1) show ?thesis by blast
next
  case (JStr s)
  with assms(2) show ?thesis by blast
qed (simp_all add: no_credit_def)

lemma no_credit_type:
  "no_credit q a \<Longrightarrow> qtype q = MULTI_CHOICE \<or> qtype q = TEXT"
  by (cases a) (simp_all add: no_credit_def)

lemma card_strings_le: "card (JStr ` set cs) \<le> length cs"
  by (meson card_image_le card_length le_trans List.finite_set)

text \<open>With finite points, the score lies between zero and the points.\<close>

lemma score_finite:
  assumes p: "points q = Fin p" "is_double p" "0 < p"
    and nothrow: "qtype q = NUMBER \<longrightarrow> ToNumber a \<noteq> Inl TypeError"
  shows "\<exists>s. calculateScore q a = Inr (Fin s) \<and> 0 \<le> s \<and> s \<le> p"
proof -
  consider (is_single) "qtype q = SINGLE_CHOICE" | (is_multi) "qtype q = MULTI_CHOICE"
    | (is_number) "qtype q = NUMBER" | (is_text) "qtype q = TEXT"
    | (unknown) "qtype q \<notin> set QuestionType_values"
    using type_cases [of q] by blast
  then show ?thesis
  proof cases
    case is_single
    then show ?thesis using p by (simp add: calculateScore_single)
  next
    case is_multi
    show ?thesis
    proof (cases a)
      case (JArr elems)
      let ?C = "JStr ` set (given (correctOptions q))"
      show ?thesis
      proof (cases "given (correctOptions q) = []")
        case True
        then show ?thesis using JArr p by (simp add: calculateScore_multi [OF is_multi])
      next
        case False
        then have n: "0 < card ?C" by (simp add: card_gt_0_iff)
        have k: "card (?C \<inter> set elems) \<le> card ?C"
          by (simp add: card_mono)
        from proportional_finite [OF p(2,3) k n] False show ?thesis
          using JArr p(1) by (simp add: calculateScore_multi [OF is_multi] del: js_mul.simps js_div.simps)
      qed
    qed (use p in \<open>simp_all add: calculateScore_multi_other [OF is_multi]\<close>)
  next
    case is_number
    with nothrow obtain v where "ToNumber a = Inr v"
      by (cases "ToNumber a") (auto intro: error.exhaust)
    then show ?thesis using p by (simp add: calculateScore_number [OF is_number])
  next
    case is_text
    show ?thesis
    proof (cases a)
      case (JStr s)
      let ?m = "length (filter (\<lambda>k. includes_str (toLowerCase s) (toLowerCase k))
                          (given (keywords q)))"
      let ?t = "if given (keywords q) = [] then 1 else length (given (keywords q))"
      have n: "0 < ?t" by simp
      have k: "?m \<le> ?t"
        using length_filter_le [of _ "given (keywords q)"] by (simp add: le_SucI)
      from proportional_finite [OF p(2,3) k n] show ?thesis
        using JStr p(1) by (simp only: calculateScore_text [OF is_text]) blast
    qed (use p in \<open>simp_all add: calculateScore_text_other [OF is_text]\<close>)
  next
    case unknown
    then show ?thesis using p by (simp add: calculateScore_unknown)
  qed
qed

text \<open>With infinite points, the score of a valid question is \<open>NaN\<close> for an answer
  without credit, and zero or infinite otherwise.\<close>

lemma score_infinite:
  assumes inf: "points q = PosInf"
    and valid: "validateQuestion q = []"
    and size: "length (given (correctOptions q)) < 2 ^ 32" "length (given (keywords q)) < 2 ^ 32"
    and nothrow: "qtype q = NUMBER \<longrightarrow> ToNumber a \<noteq> Inl TypeError"
  shows "\<exists>s. calculateScore q a = Inr s \<and>
           (if no_credit q a then s = NaN else s = Fin 0 \<or> s = PosInf)"
proof -
  consider (is_single) "qtype q = SINGLE_CHOICE" | (is_multi) "qtype q = MULTI_CHOICE"
    | (is_number) "qtype q = NUMBER" | (is_text) "qtype q = TEXT"
    | (unknown) "qtype q \<notin> set QuestionType_values"
    using type_cases [of q] by blast
  then show ?thesis
  proof cases
    case is_single
    with no_credit_type [of q a] type_neq have "\<not> no_credit q a" by auto
    with is_single inf show ?thesis by (simp add: calculateScore_single)
  next
    case is_multi
    show ?thesis
    proof (cases a)
      case (JArr elems)
      let ?C = "JStr ` set (given (correctOptions q))"
      have ne: "given (correctOptions q) \<noteq> []"
        using valid is_multi by (rule valid_multi_nonempty)
      then have n: "0 < card ?C" by (simp add: card_gt_0_iff)
      have k: "card (?C \<inter> set elems) \<le> card ?C"
        by (simp add: card_mono)
      have b: "card ?C < 2 ^ 32"
        using card_strings_le [of "given (correctOptions q)"] size(1) by linarith
      from proportional_infinite [OF k n b] ne show ?thesis
        using JArr inf
        by (simp add: calculateScore_multi [OF is_multi] no_credit_multi [OF is_multi]
              del: js_mul.simps js_div.simps)
    next
      case (JStr s)
      then show ?thesis
        using is_multi type_neq
        by (simp add: calculateScore_multi_other [OF is_multi] no_credit_def)
    qed (simp_all add: calculateScore_multi_other [OF is_multi] no_credit_def)
  next
    case is_number
    with no_credit_type [of q a] type_neq have nc: "\<not> no_credit q a" by auto
    from is_number nothrow obtain v where "ToNumber a = Inr v"
      by (cases "ToNumber a") (auto intro: error.exhaust)
    with nc inf show ?thesis by (simp add: calculateScore_number [OF is_number])
  next
    case is_text
    show ?thesis
    proof (cases a)
      case (JStr s)
      let ?m = "length (filter (\<lambda>k. includes_str (toLowerCase s) (toLowerCase k))
                          (given (keywords q)))"
      let ?t = "length (given (keywords q))"
      have ne: "given (keywords q) \<noteq> []"
        using valid is_text by (rule valid_text_nonempty)
      then have n: "0 < ?t" by simp
      have k: "?m \<le> ?t" by (rule length_filter_le)
      from proportional_infinite [OF k n size(2)] ne show ?thesis
        using JStr inf
        by (simp add: calculateScore_text [OF is_text] no_credit_text [OF is_text]
              del: js_mul.simps js_div.simps)
    next
      case (JArr elems)
      then show ?thesis
        using is_text type_neq
        by (simp add: calculateScore_text_other [OF is_text] no_credit_def)
    qed (simp_all add: calculateScore_text_other [OF is_text] no_credit_def)
  next
    case unknown
    with no_credit_type [of q a] type_known have "\<not> no_credit q a" by auto
    with unknown show ?thesis by (simp add: calculateScore_unknown)
  qed
qed

subsection \<open>Lists obtained by leaving elements out\<close>

lemma subseq_set_subset: "subseq xs ys \<Longrightarrow> set xs \<subseteq> set ys"
  by (induction rule: list_emb.induct) auto

lemma subseq_skip: "subseq xs ys \<Longrightarrow> subseq xs (m # ys)"
  by (rule list_emb_Cons)

lemma subseq_pick: "subseq xs ys \<Longrightarrow> subseq ((if c then [m] else []) @ xs) (m # ys)"
  by (cases c) (simp_all add: list_emb_Cons)

lemma subseq_pick_last: "subseq (if c then [m] else []) (m # ys)"
  by (cases c) simp_all

section \<open>The claims\<close>

lemmas validate_eval =
  validateQuestion_def Let_def trim_def isWhiteSpace_def type_defs not_num_def not_str_def
  not_arr_def given_def operand_def

lemmas score_eval =
  calculateScore_def Let_def type_defs given_def Set_new_def Set_add_def Set_has_def
  SameValueZero_def StrictEq_def str_val_def nullish_def isNaN_def js_ge_def

lemmas question_defs =
  single_choice_question_def multi_choice_question_def number_question_def text_question_def

subsection \<open>C1: the score lies between zero and the points of the question\<close>

text \<open>
  C1, as amended. For every question that passes validation and every answer of any
  shape, provided that \<^verbatim>\<open>Number(answer)\<close> does not throw when the question is a number:
  the function returns a number, and this number is at least zero and at most the points
  of the question, except when the points are infinite and the answer earns no credit
  where credit is proportional (a sequence with none of the correct options of a choice
  among several, a string with none of the keywords of a text); the score is then
  \<open>NaN\<close>.

  Validation accepts infinite points (the check is only that the points are truthy and
  not at most zero), and an infinity times a zero fraction is \<open>NaN\<close>. The hypothesis
  \<open>representable\<close> holds of every question of the language: finite points are a double and
  an array has fewer than \<open>2\<^sup>3\<^sup>2\<close> elements.
\<close>

theorem score_within_points:
  assumes "validateQuestion q = []" and "representable q"
    and "qtype q = NUMBER \<longrightarrow> ToNumber a \<noteq> Inl TypeError"
  shows "\<exists>s. calculateScore q a = Inr s \<and>
           (if points q = PosInf \<and> no_credit q a then s = NaN
            else js_le (Fin 0) s \<and> js_le s (points q))"
proof -
  from assms(1) have "js_lt (Fin 0) (points q)"
    using valid_common [of q] by (simp add: commonErrors_Nil)
  then consider (infinite) "points q = PosInf" | (finite) x where "points q = Fin x" "0 < x"
    using positive_points by blast
  then show ?thesis
  proof cases
    case infinite
    from assms(2) have "length (given (correctOptions q)) < 2 ^ 32"
      and "length (given (keywords q)) < 2 ^ 32"
      by (simp_all add: representable_def)
    from score_infinite [OF infinite assms(1) this assms(3)]
    obtain s where "calculateScore q a = Inr s"
      and "if no_credit q a then s = NaN else s = Fin 0 \<or> s = PosInf"
      by blast
    with infinite show ?thesis by (auto split: if_splits)
  next
    case finite
    with assms(2) have "is_double x" by (simp add: representable_def)
    from score_finite [OF finite(1) this finite(2) assms(3)] finite(1) show ?thesis
      by auto
  qed
qed

theorem score_within_points_witness:
  "validateQuestion multi_choice_question = [] \<and>
   representable multi_choice_question \<and>
   calculateScore multi_choice_question (JArr [JStr ''2'']) = Inr (Fin 5) \<and>
   validateQuestion (single_choice_question\<lparr>points := PosInf\<rparr>) = [] \<and>
   representable (single_choice_question\<lparr>points := PosInf\<rparr>) \<and>
   \<not> no_credit (single_choice_question\<lparr>points := PosInf\<rparr>) (JStr ''4'') \<and>
   calculateScore (single_choice_question\<lparr>points := PosInf\<rparr>) (JStr ''4'') = Inr PosInf \<and>
   (\<exists>s. calculateScore multi_choice_question (JArr [JStr ''2'']) = Inr s \<and>
        js_le (Fin 0) s \<and> js_le s (points multi_choice_question)) \<and>
   (\<exists>s. calculateScore (single_choice_question\<lparr>points := PosInf\<rparr>) (JStr ''4'') = Inr s \<and>
        js_le (Fin 0) s \<and> js_le s (points (single_choice_question\<lparr>points := PosInf\<rparr>)))"
proof -
  let ?m = "multi_choice_question"
  let ?i = "single_choice_question\<lparr>points := PosInf\<rparr>"
  have vm: "validateQuestion ?m = []"
    by (simp add: multi_choice_question_def validate_eval)
  have rm: "representable ?m"
    by (simp add: multi_choice_question_def representable_def given_def is_double_def
          double_eval)
  have tm: "qtype ?m = NUMBER \<longrightarrow> ToNumber (JArr [JStr ''2'']) \<noteq> Inl TypeError"
    by simp
  have sm: "calculateScore ?m (JArr [JStr ''2'']) = Inr (Fin 5)"
    by (simp add: multi_choice_question_def score_eval double_eval)
  have vi: "validateQuestion ?i = []"
    by (simp add: single_choice_question_def validate_eval)
  have ri: "representable ?i"
    by (simp add: single_choice_question_def representable_def given_def)
  have ti: "qtype ?i = NUMBER \<longrightarrow> ToNumber (JStr ''4'') \<noteq> Inl TypeError"
    by simp
  have ni: "\<not> no_credit ?i (JStr ''4'')"
    by (simp add: single_choice_question_def no_credit_def type_defs)
  have si: "calculateScore ?i (JStr ''4'') = Inr PosInf"
    by (simp add: single_choice_question_def score_eval)
  have pm: "points ?m \<noteq> PosInf"
    by (simp add: multi_choice_question_def)
  from score_within_points [OF vm rm tm] pm
  have m: "\<exists>s. calculateScore ?m (JArr [JStr ''2'']) = Inr s \<and>
        js_le (Fin 0) s \<and> js_le s (points ?m)"
    by simp
  from score_within_points [OF vi ri ti] ni
  have i: "\<exists>s. calculateScore ?i (JStr ''4'') = Inr s \<and>
        js_le (Fin 0) s \<and> js_le s (points ?i)"
    by simp
  from vm rm sm vi ri ni si m i show ?thesis
    by (simp only: simp_thms)
qed

text \<open>The claim as stated fails in two ways. The question of the test suite with a
  choice among several, once its points are infinite (\<^verbatim>\<open>1e999\<close> in a request body is
  read as \<^verbatim>\<open>Infinity\<close>), passes validation, and the empty answer scores \<open>NaN\<close>. The
  number question of the test suite passes validation, and for the answer
  \<^verbatim>\<open>{"toString": "x"}\<close> no score is returned: \<^verbatim>\<open>Number(answer)\<close> throws.\<close>

theorem score_within_points_counterexample:
  "validateQuestion (multi_choice_question\<lparr>points := PosInf\<rparr>) = [] \<and>
   calculateScore (multi_choice_question\<lparr>points := PosInf\<rparr>) (JArr []) = Inr NaN \<and>
   \<not> js_le (Fin 0) NaN \<and>
   validateQuestion number_question = [] \<and>
   calculateScore number_question (JObj [(''toString'', JStr ''x'')]) = Inl TypeError"
proof -
  have v: "validateQuestion (multi_choice_question\<lparr>points := PosInf\<rparr>) = []"
    by (simp add: multi_choice_question_def validate_eval)
  have s: "calculateScore (multi_choice_question\<lparr>points := PosInf\<rparr>) (JArr []) = Inr NaN"
    by (simp add: multi_choice_question_def score_eval double_eval)
  have w: "validateQuestion number_question = []"
    by (simp add: number_question_def validate_eval)
  have t: "calculateScore number_question (JObj [(''toString'', JStr ''x'')]) = Inl TypeError"
    by (simp add: number_question_def score_eval)
  from v s w t show ?thesis by simp
qed

subsection \<open>C3: the score of a choice among several\<close>

text \<open>
  C3, as amended. For every question with a choice among several and every answer: an
  answer that is not a sequence scores zero; otherwise, with \<open>correctSet\<close> the set of the
  correct options and \<open>answerSet\<close> the set of the elements of the answer, the score is
  zero when \<open>correctSet\<close> is empty, and otherwise the points times the quotient of the
  size of the intersection by the size of \<open>correctSet\<close>, where the quotient is rounded
  to a double before it is multiplied, and the product is rounded again.
\<close>

theorem multi_choice_score:
  assumes "qtype q = MULTI_CHOICE"
  shows "calculateScore q a =
     Inr (case a of
        JArr elems \<Rightarrow>
          (let correctSet = JStr ` set (given (correctOptions q)); answerSet = set elems
           in if correctSet = {} then Fin 0
              else js_mul (points q)
                     (js_div (Fin (real (card (correctSet \<inter> answerSet))))
                        (Fin (real (card correctSet)))))
      | _ \<Rightarrow> Fin 0)"
proof (cases a)
  case (JArr elems)
  then show ?thesis
    using calculateScore_multi [OF assms, of elems]
    by (simp add: Let_def del: js_mul.simps js_div.simps)
qed (simp_all add: calculateScore_multi_other [OF assms])

theorem multi_choice_score_witness:
  "qtype multi_choice_question = MULTI_CHOICE \<and>
   calculateScore multi_choice_question (JArr [JStr ''2'', JStr ''4'']) = Inr (Fin 10) \<and>
   calculateScore multi_choice_question (JArr [JStr ''2'']) = Inr (Fin 5) \<and>
   calculateScore multi_choice_question (JArr [JStr ''2'', JStr ''4'', JStr ''6''])
     = Inr (Fin 10) \<and>
   calculateScore multi_choice_question (JArr [JStr ''1'', JStr ''3'']) = Inr (Fin 0) \<and>
   calculateScore multi_choice_question (JArr []) = Inr (Fin 0) \<and>
   calculateScore multi_choice_question (JStr ''2'') = Inr (Fin 0) \<and>
   calculateScore (multi_choice_question\<lparr>correctOptions := Given [''1'', ''2'', ''4'']\<rparr>)
     (JArr [JStr ''2'', JStr ''2'', JStr ''4'']) = Inr (Fin (3752999689475413 / 2 ^ 49))"
proof -
  let ?m = "multi_choice_question"
  let ?n = "multi_choice_question\<lparr>correctOptions := Given [''1'', ''2'', ''4'']\<rparr>"
  have t: "qtype ?m = MULTI_CHOICE" "qtype ?n = MULTI_CHOICE"
    by (simp_all add: multi_choice_question_def type_defs)
  have full: "js_mul (Fin 10) (js_div (Fin 2) (Fin 2)) = Fin 10"
    and half: "js_mul (Fin 10) (js_div (Fin 1) (Fin 2)) = Fin 5"
    and none: "js_mul (Fin 10) (js_div (Fin 0) (Fin 2)) = Fin 0"
    and two_thirds: "js_mul (Fin 10) (js_div (Fin 2) (Fin 3)) = Fin (3752999689475413 / 2 ^ 49)"
    by (simp_all add: double_eval)
  have "calculateScore ?m (JArr [JStr ''2'', JStr ''4''])
          = Inr (js_mul (Fin 10) (js_div (Fin 2) (Fin 2)))"
    using multi_choice_score [OF t(1), of "JArr [JStr ''2'', JStr ''4'']"]
    by (simp add: multi_choice_question_def given_def Let_def del: js_mul.simps js_div.simps)
  moreover have "calculateScore ?m (JArr [JStr ''2''])
          = Inr (js_mul (Fin 10) (js_div (Fin 1) (Fin 2)))"
    using multi_choice_score [OF t(1), of "JArr [JStr ''2'']"]
    by (simp add: multi_choice_question_def given_def Let_def del: js_mul.simps js_div.simps)
  moreover have "calculateScore ?m (JArr [JStr ''2'', JStr ''4'', JStr ''6''])
          = Inr (js_mul (Fin 10) (js_div (Fin 2) (Fin 2)))"
    using multi_choice_score [OF t(1), of "JArr [JStr ''2'', JStr ''4'', JStr ''6'']"]
    by (simp add: multi_choice_question_def given_def Let_def del: js_mul.simps js_div.simps)
  moreover have "calculateScore ?m (JArr [JStr ''1'', JStr ''3''])
          = Inr (js_mul (Fin 10) (js_div (Fin 0) (Fin 2)))"
    using multi_choice_score [OF t(1), of "JArr [JStr ''1'', JStr ''3'']"]
    by (simp add: multi_choice_question_def given_def Let_def del: js_mul.simps js_div.simps)
  moreover have "calculateScore ?m (JArr [])
          = Inr (js_mul (Fin 10) (js_div (Fin 0) (Fin 2)))"
    using multi_choice_score [OF t(1), of "JArr []"]
    by (simp add: multi_choice_question_def given_def Let_def del: js_mul.simps js_div.simps)
  moreover have "calculateScore ?m (JStr ''2'') = Inr (Fin 0)"
    using multi_choice_score [OF t(1), of "JStr ''2''"] by simp
  moreover have "calculateScore ?n (JArr [JStr ''2'', JStr ''2'', JStr ''4''])
          = Inr (js_mul (Fin 10) (js_div (Fin 2) (Fin 3)))"
    using multi_choice_score [OF t(2), of "JArr [JStr ''2'', JStr ''2'', JStr ''4'']"]
    by (simp add: multi_choice_question_def given_def Let_def del: js_mul.simps js_div.simps)
  ultimately show ?thesis
    using t(1) by (simp only: full half none two_thirds simp_thms)
qed

text \<open>The claim as stated fails for the question of the test suite, given three correct
  options, and an answer with two of them. The score is the double
  \<open>6.666666666666666\<close>. This is neither the exact value of the formula of the claim,
  twenty thirds, which is no double, nor what the formula gives when it is computed
  from left to right in doubles, the product first: \<open>6.666666666666667\<close>.\<close>

theorem multi_choice_score_counterexample:
  "validateQuestion (multi_choice_question\<lparr>correctOptions := Given [''1'', ''2'', ''4'']\<rparr>) = [] \<and>
   calculateScore (multi_choice_question\<lparr>correctOptions := Given [''1'', ''2'', ''4'']\<rparr>)
     (JArr [JStr ''2'', JStr ''4'']) = Inr (Fin (3752999689475413 / 2 ^ 49)) \<and>
   Fin (3752999689475413 / 2 ^ 49) \<noteq> Fin (exact_score 10 2 3) \<and>
   js_div (js_mul (Fin 10) (Fin 2)) (Fin 3) = Fin (7505999378950827 / 2 ^ 50) \<and>
   Fin (3752999689475413 / 2 ^ 49) \<noteq> Fin (7505999378950827 / 2 ^ 50)"
proof -
  let ?n = "multi_choice_question\<lparr>correctOptions := Given [''1'', ''2'', ''4'']\<rparr>"
  have v: "validateQuestion ?n = []"
    by (simp add: multi_choice_question_def validate_eval)
  have s: "calculateScore ?n (JArr [JStr ''2'', JStr ''4''])
             = Inr (Fin (3752999689475413 / 2 ^ 49))"
    by (simp add: multi_choice_question_def score_eval double_eval)
  have e: "Fin (3752999689475413 / 2 ^ 49) \<noteq> Fin (exact_score 10 2 3)"
    by (simp add: exact_score_def)
  have l: "js_div (js_mul (Fin 10) (Fin 2)) (Fin 3) = Fin (7505999378950827 / 2 ^ 50)"
    by (simp add: double_eval)
  have d: "Fin (3752999689475413 / 2 ^ 49) \<noteq> Fin (7505999378950827 / 2 ^ 50)"
    by simp
  from v s e l d show ?thesis by (simp only: simp_thms)
qed

subsection \<open>C7: answers outside the correct options do not change the score\<close>

text \<open>
  C7. For every question with a choice among several, every sequence answer and every
  element that is not one of the correct options, the answer with the element appended
  has the score of the answer without it.
\<close>

theorem multi_choice_extra_element:
  assumes "qtype q = MULTI_CHOICE"
    and "\<forall>c \<in> set (given (correctOptions q)). x \<noteq> JStr c"
  shows "calculateScore q (JArr (a @ [x])) = calculateScore q (JArr a)"
proof -
  have "JStr ` set (given (correctOptions q)) \<inter> set (a @ [x])
          = JStr ` set (given (correctOptions q)) \<inter> set a"
    using assms(2) by auto
  then show ?thesis
    by (simp only: calculateScore_multi [OF assms(1)])
qed

theorem multi_choice_extra_element_witness:
  "qtype multi_choice_question = MULTI_CHOICE \<and>
   JStr ''6'' \<notin> set (map JStr (given (correctOptions multi_choice_question))) \<and>
   calculateScore multi_choice_question (JArr ([JStr ''2''] @ [JStr ''6'']))
     = calculateScore multi_choice_question (JArr [JStr ''2'']) \<and>
   calculateScore multi_choice_question (JArr [JStr ''2'']) = Inr (Fin 5)"
proof -
  have t: "qtype multi_choice_question = MULTI_CHOICE"
    by (simp add: multi_choice_question_def type_defs)
  have x: "\<forall>c \<in> set (given (correctOptions multi_choice_question)). JStr ''6'' \<noteq> JStr c"
    by (simp add: multi_choice_question_def given_def)
  have s: "calculateScore multi_choice_question (JArr [JStr ''2'']) = Inr (Fin 5)"
    by (simp add: multi_choice_question_def score_eval double_eval)
  have y: "JStr ''6'' \<notin> set (map JStr (given (correctOptions multi_choice_question)))"
    by (simp add: multi_choice_question_def given_def)
  from multi_choice_extra_element [OF t x, of "[JStr ''2'']"] t y s show ?thesis
    by simp
qed

subsection \<open>C2: the empty list of errors and the rules\<close>

text \<open>
  C2, as amended. For every question, validation returns the empty list exactly when
  the question satisfies these rules: the text is not empty after trimming; the type is
  one of the four known variants; the points are greater than zero; and, by variant:
  single choice, the correct option is present and not the empty string, and belongs to
  the options when these are present; choice among several, the correct options are
  present and not empty, and all belong to the options when these are present; number,
  the minimum and the maximum are present and the maximum is not less than the minimum;
  text, the keywords are present and not empty.
\<close>

theorem validate_empty_iff_rules:
  "validateQuestion q = [] \<longleftrightarrow> rules_as_checked q"
proof -
  consider (is_single) "qtype q = SINGLE_CHOICE" | (is_multi) "qtype q = MULTI_CHOICE"
    | (is_number) "qtype q = NUMBER" | (is_text) "qtype q = TEXT"
    | (unknown) "qtype q \<notin> set QuestionType_values"
    using type_cases [of q] by blast
  then show ?thesis
  proof cases
    case is_single
    then show ?thesis
      by (cases "correctOption q"; cases "options q")
        (simp_all add: validate_single commonErrors_Nil rules_as_checked_def type_neq
          type_known not_str_def not_arr_def given_def)
  next
    case is_multi
    then show ?thesis
      by (cases "correctOptions q"; cases "options q")
        (simp_all add: validate_multi commonErrors_Nil rules_as_checked_def type_neq
          type_known not_arr_def given_def)
  next
    case is_number
    then show ?thesis
      by (cases "qmin q"; cases "qmax q")
        (simp_all add: validate_number commonErrors_Nil rules_as_checked_def type_neq
          type_known operand_def)
  next
    case is_text
    then show ?thesis
      by (cases "keywords q")
        (simp_all add: validate_text commonErrors_Nil rules_as_checked_def type_neq
          type_known not_arr_def given_def)
  next
    case unknown
    then show ?thesis
      by (simp add: validate_unknown commonErrors_Nil rules_as_checked_def)
  qed
qed

theorem validate_empty_iff_rules_witness:
  "validateQuestion number_question = [] \<and> rules_as_checked number_question \<and>
   validateQuestion (number_question\<lparr>qmax := Given (Fin (- 1))\<rparr>)
     = [''max must be greater than or equal to min''] \<and>
   \<not> rules_as_checked (number_question\<lparr>qmax := Given (Fin (- 1))\<rparr>)"
proof -
  have v: "validateQuestion number_question = []"
    by (simp add: number_question_def validate_eval)
  have w: "validateQuestion (number_question\<lparr>qmax := Given (Fin (- 1))\<rparr>)
             = [''max must be greater than or equal to min'']"
    by (simp add: number_question_def validate_eval)
  from validate_empty_iff_rules [of number_question]
    validate_empty_iff_rules [of "number_question\<lparr>qmax := Given (Fin (- 1))\<rparr>"] v w
  show ?thesis by simp
qed

text \<open>The claim as stated fails for a single choice whose correct option is the empty
  string: the field is present and there are no options to compare it with, so the rules
  of the specification hold, yet validation reports an error.\<close>

theorem validate_empty_iff_rules_counterexample:
  "rules_as_specified (single_choice_question\<lparr>options := Missing, correctOption := Given ''''\<rparr>) \<and>
   validateQuestion (single_choice_question\<lparr>options := Missing, correctOption := Given ''''\<rparr>)
     = [''correctOption is required for single_choice type'']"
proof -
  have r: "rules_as_specified
             (single_choice_question\<lparr>options := Missing, correctOption := Given ''''\<rparr>)"
    by (simp add: single_choice_question_def rules_as_specified_def trim_def isWhiteSpace_def
          type_defs)
  have v: "validateQuestion
             (single_choice_question\<lparr>options := Missing, correctOption := Given ''''\<rparr>)
             = [''correctOption is required for single_choice type'']"
    by (simp add: single_choice_question_def validate_eval)
  from r v show ?thesis by simp
qed

subsection \<open>C6: the order of the errors\<close>

text \<open>
  C6. For every question, the errors that validation returns appear in the order of the
  rules: the list of errors is obtained from the list of all messages, which is in that
  order and without repetition, by leaving some messages out. When the type is none of
  the four known variants, the errors are among the three common messages, so no error
  of a variant is reported.
\<close>

theorem errors_in_rule_order:
  "distinct all_messages \<and>
   subseq (validateQuestion q) all_messages \<and>
   (qtype q \<notin> set QuestionType_values \<longrightarrow>
      subseq (validateQuestion q) common_messages \<and>
      set (validateQuestion q) \<inter> set variant_messages = {})"
proof -
  have common: "subseq (commonErrors q) common_messages"
    unfolding commonErrors_def common_messages_def
    by (rule subseq_pick | rule subseq_pick_last | rule subseq_skip)+
  have disjoint: "set common_messages \<inter> set variant_messages = {}"
    by (simp add: common_messages_def variant_messages_def)
  have unknown: "subseq (validateQuestion q) common_messages \<and>
      set (validateQuestion q) \<inter> set variant_messages = {}"
    if "qtype q \<notin> set QuestionType_values"
  proof -
    have "set (commonErrors q) \<subseteq> set common_messages"
      using common by (rule subseq_set_subset)
    with disjoint have "set (commonErrors q) \<inter> set variant_messages = {}"
      by blast
    with common show ?thesis
      by (simp add: validate_unknown [OF that])
  qed
  have ordered: "subseq (validateQuestion q) all_messages"
  proof -
    consider (is_single) "qtype q = SINGLE_CHOICE" | (is_multi) "qtype q = MULTI_CHOICE"
      | (is_number) "qtype q = NUMBER" | (is_text) "qtype q = TEXT"
      | (unknown_type) "qtype q \<notin> set QuestionType_values"
      using type_cases [of q] by blast
    then show ?thesis
    proof cases
      case is_single
      show ?thesis
        unfolding all_messages_def validate_single [OF is_single]
        apply (rule list_emb_append_mono [OF common])
        unfolding variant_messages_def
        by (rule subseq_pick | rule subseq_pick_last | rule subseq_skip)+
    next
      case is_multi
      show ?thesis
        unfolding all_messages_def validate_multi [OF is_multi]
        apply (rule list_emb_append_mono [OF common])
        unfolding variant_messages_def
        by (rule subseq_pick | rule subseq_pick_last | rule subseq_skip)+
    next
      case is_number
      show ?thesis
        unfolding all_messages_def validate_number [OF is_number]
        apply (rule list_emb_append_mono [OF common])
        unfolding variant_messages_def
        by (rule subseq_pick | rule subseq_pick_last | rule subseq_skip)+
    next
      case is_text
      show ?thesis
        unfolding all_messages_def validate_text [OF is_text]
        apply (rule list_emb_append_mono [OF common])
        unfolding variant_messages_def
        by (rule subseq_pick | rule subseq_pick_last | rule subseq_skip)+
    next
      case unknown_type
      from unknown [OF this] have "subseq (validateQuestion q) common_messages" ..
      then have "subseq (validateQuestion q @ []) (common_messages @ variant_messages)"
        by (rule list_emb_append_mono) simp
      then show ?thesis
        by (simp add: all_messages_def)
    qed
  qed
  have "distinct all_messages"
    by (simp add: all_messages_def common_messages_def variant_messages_def)
  with ordered unknown show ?thesis by blast
qed

theorem errors_in_rule_order_witness:
  "qtype (number_question\<lparr>qtype := ''essay'', qtext := '' '', points := Fin 0\<rparr>)
     \<notin> set QuestionType_values \<and>
   validateQuestion (number_question\<lparr>qtype := ''essay'', qtext := '' '', points := Fin 0\<rparr>)
     = [''Question text is required'', ''Invalid question type'',
        ''Points must be greater than 0''] \<and>
   validateQuestion (number_question\<lparr>qtext := [], qmin := Missing, qmax := IsNull\<rparr>)
     = [''Question text is required'', ''min is required for number type'',
        ''max is required for number type''] \<and>
   subseq (validateQuestion (number_question\<lparr>qtext := [], qmin := Missing, qmax := IsNull\<rparr>))
     all_messages \<and>
   subseq
     (validateQuestion (number_question\<lparr>qtype := ''essay'', qtext := '' '', points := Fin 0\<rparr>))
     common_messages"
proof -
  let ?u = "number_question\<lparr>qtype := ''essay'', qtext := '' '', points := Fin 0\<rparr>"
  let ?n = "number_question\<lparr>qtext := [], qmin := Missing, qmax := IsNull\<rparr>"
  have t: "qtype ?u \<notin> set QuestionType_values"
    by (simp add: type_defs)
  have u: "validateQuestion ?u = [''Question text is required'', ''Invalid question type'',
        ''Points must be greater than 0'']"
    by (simp add: number_question_def validate_eval)
  have n: "validateQuestion ?n = [''Question text is required'',
        ''min is required for number type'', ''max is required for number type'']"
    by (simp add: number_question_def validate_eval)
  from errors_in_rule_order [of ?u] errors_in_rule_order [of ?n] t
  have "subseq (validateQuestion ?n) all_messages"
    and "subseq (validateQuestion ?u) common_messages"
    by blast+
  with t u n show ?thesis by (simp only: simp_thms)
qed

subsection \<open>C8: a missing correct option, and a range upside down\<close>

text \<open>
  C8. A single choice with a text that is not empty after trimming and with positive
  points, but without a correct option, yields exactly one error, which contains
  ``correctOption is required''. A number with such a text and points, with minimum 5
  and maximum 2, yields an error that contains ``max must be greater than or equal to
  min'', and neither of the two errors of a missing bound.
\<close>

theorem missing_option_and_inverted_range:
  "(trim (qtext q) \<noteq> [] \<and> js_lt (Fin 0) (points q) \<and> qtype q = SINGLE_CHOICE \<and>
    correctOption q = Missing \<longrightarrow>
      (\<exists>e. validateQuestion q = [e] \<and> includes_str e ''correctOption is required'')) \<and>
   (trim (qtext r) \<noteq> [] \<and> js_lt (Fin 0) (points r) \<and> qtype r = NUMBER \<and>
    qmin r = Given (Fin 5) \<and> qmax r = Given (Fin 2) \<longrightarrow>
      (\<exists>e \<in> set (validateQuestion r).
          includes_str e ''max must be greater than or equal to min'') \<and>
      ''min is required for number type'' \<notin> set (validateQuestion r) \<and>
      ''max is required for number type'' \<notin> set (validateQuestion r))"
proof -
  have single: "validateQuestion q = [''correctOption is required for single_choice type'']"
    if "trim (qtext q) \<noteq> []" "js_lt (Fin 0) (points q)" "qtype q = SINGLE_CHOICE"
      "correctOption q = Missing"
  proof -
    have "commonErrors q = []"
      using that by (simp add: commonErrors_Nil type_known)
    then show ?thesis
      using that(4) by (simp add: validate_single [OF that(3)] not_str_def)
  qed
  have contains: "includes_str ''correctOption is required for single_choice type''
      ''correctOption is required''"
    by simp
  have number: "validateQuestion r = [''max must be greater than or equal to min'']"
    if "trim (qtext r) \<noteq> []" "js_lt (Fin 0) (points r)" "qtype r = NUMBER"
      "qmin r = Given (Fin 5)" "qmax r = Given (Fin 2)"
  proof -
    have "commonErrors r = []"
      using that by (simp add: commonErrors_Nil type_known)
    then show ?thesis
      using that(4,5) by (simp add: validate_number [OF that(3)] operand_def)
  qed
  have contains': "includes_str ''max must be greater than or equal to min''
      ''max must be greater than or equal to min''"
    by simp
  show ?thesis
  proof (intro conjI impI)
    assume "trim (qtext q) \<noteq> [] \<and> js_lt (Fin 0) (points q) \<and> qtype q = SINGLE_CHOICE \<and>
      correctOption q = Missing"
    then have "validateQuestion q = [''correctOption is required for single_choice type'']"
      using single by blast
    with contains
    show "\<exists>e. validateQuestion q = [e] \<and> includes_str e ''correctOption is required''"
      by blast
  next
    assume a: "trim (qtext r) \<noteq> [] \<and> js_lt (Fin 0) (points r) \<and> qtype r = NUMBER \<and>
      qmin r = Given (Fin 5) \<and> qmax r = Given (Fin 2)"
    then have v: "validateQuestion r = [''max must be greater than or equal to min'']"
      using number by blast
    with contains'
    show "\<exists>e \<in> set (validateQuestion r).
        includes_str e ''max must be greater than or equal to min''"
      by (simp del: includes_str.simps)
    from v show "''min is required for number type'' \<notin> set (validateQuestion r)"
      by simp
    from v show "''max is required for number type'' \<notin> set (validateQuestion r)"
      by simp
  qed
qed

theorem missing_option_and_inverted_range_witness:
  "trim (qtext (single_choice_question\<lparr>correctOption := Missing\<rparr>)) \<noteq> [] \<and>
   js_lt (Fin 0) (points (single_choice_question\<lparr>correctOption := Missing\<rparr>)) \<and>
   qtype (single_choice_question\<lparr>correctOption := Missing\<rparr>) = SINGLE_CHOICE \<and>
   correctOption (single_choice_question\<lparr>correctOption := Missing\<rparr>) = Missing \<and>
   validateQuestion (single_choice_question\<lparr>correctOption := Missing\<rparr>)
     = [''correctOption is required for single_choice type''] \<and>
   trim (qtext (number_question\<lparr>qmin := Given (Fin 5), qmax := Given (Fin 2)\<rparr>)) \<noteq> [] \<and>
   js_lt (Fin 0) (points (number_question\<lparr>qmin := Given (Fin 5), qmax := Given (Fin 2)\<rparr>)) \<and>
   qtype (number_question\<lparr>qmin := Given (Fin 5), qmax := Given (Fin 2)\<rparr>) = NUMBER \<and>
   validateQuestion (number_question\<lparr>qmin := Given (Fin 5), qmax := Given (Fin 2)\<rparr>)
     = [''max must be greater than or equal to min''] \<and>
   (\<exists>e. validateQuestion (single_choice_question\<lparr>correctOption := Missing\<rparr>) = [e] \<and>
        includes_str e ''correctOption is required'') \<and>
   ''min is required for number type''
     \<notin> set (validateQuestion (number_question\<lparr>qmin := Given (Fin 5), qmax := Given (Fin 2)\<rparr>))"
proof -
  let ?s = "single_choice_question\<lparr>correctOption := Missing\<rparr>"
  let ?n = "number_question\<lparr>qmin := Given (Fin 5), qmax := Given (Fin 2)\<rparr>"
  have s: "trim (qtext ?s) \<noteq> [] \<and> js_lt (Fin 0) (points ?s) \<and> qtype ?s = SINGLE_CHOICE \<and>
      correctOption ?s = Missing"
    by (simp add: single_choice_question_def trim_def isWhiteSpace_def type_defs)
  have n: "trim (qtext ?n) \<noteq> [] \<and> js_lt (Fin 0) (points ?n) \<and> qtype ?n = NUMBER \<and>
      qmin ?n = Given (Fin 5) \<and> qmax ?n = Given (Fin 2)"
    by (simp add: number_question_def trim_def isWhiteSpace_def type_defs)
  have vs: "validateQuestion ?s = [''correctOption is required for single_choice type'']"
    by (simp add: single_choice_question_def validate_eval)
  have vn: "validateQuestion ?n = [''max must be greater than or equal to min'']"
    by (simp add: number_question_def validate_eval)
  from missing_option_and_inverted_range [of ?s ?n] s n
  have "\<exists>e. validateQuestion ?s = [e] \<and> includes_str e ''correctOption is required''"
    and "''min is required for number type'' \<notin> set (validateQuestion ?n)"
    by blast+
  with s n vs vn show ?thesis
    by (simp only: simp_thms)
qed

subsection \<open>C10: a correct option that is the empty string\<close>

text \<open>
  C10. For every single choice whose correct option is the empty string, validation
  reports ``correctOption is required for single_choice type'', and never reports
  ``correctOption must be in options list'', whatever the options are.
\<close>

theorem empty_correct_option:
  assumes "qtype q = SINGLE_CHOICE" and "correctOption q = Given ''''"
  shows "''correctOption is required for single_choice type'' \<in> set (validateQuestion q) \<and>
         ''correctOption must be in options list'' \<notin> set (validateQuestion q)"
proof -
  have "subseq (commonErrors q) common_messages"
    unfolding commonErrors_def common_messages_def
    by (rule subseq_pick | rule subseq_pick_last | rule subseq_skip)+
  then have "set (commonErrors q) \<subseteq> set common_messages"
    by (rule subseq_set_subset)
  moreover have "''correctOption must be in options list'' \<notin> set common_messages"
    by (simp add: common_messages_def)
  ultimately have "''correctOption must be in options list'' \<notin> set (commonErrors q)"
    by blast
  then show ?thesis
    using assms(2) by (simp add: validate_single [OF assms(1)] not_str_def)
qed

theorem empty_correct_option_witness:
  "qtype (single_choice_question\<lparr>correctOption := Given ''''\<rparr>) = SINGLE_CHOICE \<and>
   correctOption (single_choice_question\<lparr>correctOption := Given ''''\<rparr>) = Given '''' \<and>
   options (single_choice_question\<lparr>correctOption := Given ''''\<rparr>) = Given [''3'', ''4'', ''5''] \<and>
   validateQuestion (single_choice_question\<lparr>correctOption := Given ''''\<rparr>)
     = [''correctOption is required for single_choice type''] \<and>
   ''correctOption is required for single_choice type''
     \<in> set (validateQuestion (single_choice_question\<lparr>correctOption := Given ''''\<rparr>)) \<and>
   ''correctOption must be in options list''
     \<notin> set (validateQuestion (single_choice_question\<lparr>correctOption := Given ''''\<rparr>))"
proof -
  let ?s = "single_choice_question\<lparr>correctOption := Given ''''\<rparr>"
  have t: "qtype ?s = SINGLE_CHOICE"
    by (simp add: single_choice_question_def type_defs)
  have c: "correctOption ?s = Given ''''"
    by simp
  have os: "options ?s = Given [''3'', ''4'', ''5'']"
    by (simp add: single_choice_question_def)
  have v: "validateQuestion ?s = [''correctOption is required for single_choice type'']"
    by (simp add: single_choice_question_def validate_eval)
  from empty_correct_option [OF t c] t c os v show ?thesis
    by (simp only: simp_thms)
qed

subsection \<open>C4: the score of a number\<close>

text \<open>
  C4. For every question of the number variant, the answer is coerced to a number; the
  score is zero when the result is not a number, the points of the question when the
  result lies between the minimum and the maximum, bounds included, and zero when it
  does not. The code departs from this for an answer that cannot be coerced at all: for
  the number question of the test suite, which passes validation, the answers
  \<^verbatim>\<open>{"toString": "x"}\<close> and \<^verbatim>\<open>[{"toString": "x"}]\<close> make \<^verbatim>\<open>Number(answer)\<close> throw
  a \<^verbatim>\<open>TypeError\<close>, and no score is returned, whereas an object without such a field
  scores zero.
\<close>

theorem number_score_type_error:
  "qtype number_question = NUMBER \<and>
   validateQuestion number_question = [] \<and>
   ToNumber (JObj [(''toString'', JStr ''x'')]) = Inl TypeError \<and>
   calculateScore number_question (JObj [(''toString'', JStr ''x'')]) = Inl TypeError \<and>
   calculateScore number_question (JArr [JObj [(''toString'', JStr ''x'')]]) = Inl TypeError \<and>
   calculateScore number_question (JObj [(''name'', JStr ''x'')]) = Inr (Fin 0)"
proof -
  have t: "qtype number_question = NUMBER"
    by (simp add: number_question_def type_defs)
  have v: "validateQuestion number_question = []"
    by (simp add: number_question_def validate_eval)
  have n: "ToNumber (JObj [(''toString'', JStr ''x'')]) = Inl TypeError"
    by simp
  have "calculateScore number_question (JObj [(''toString'', JStr ''x'')]) = Inl TypeError"
    and "calculateScore number_question (JArr [JObj [(''toString'', JStr ''x'')]]) = Inl TypeError"
    and "calculateScore number_question (JObj [(''name'', JStr ''x'')]) = Inr (Fin 0)"
    by (simp_all add: calculateScore_number [OF t])
  with t v n show ?thesis by (simp only: simp_thms)
qed

subsection \<open>C9: answers that are not numbers but coerce to one\<close>

text \<open>
  C9. For every question of the number variant, an answer whose coercion is a number is
  scored by its membership of the range from the minimum to the maximum, bounds
  included and a missing bound infinite, also when the answer itself is not a number.
  The empty string, the empty array and \<^verbatim>\<open>null\<close> all coerce to zero, and each earns
  the points of the question whenever zero lies in the range; an answer whose coercion
  is \<open>NaN\<close> scores zero whatever the range.
\<close>

theorem number_coercion:
  assumes "qtype q = NUMBER"
  shows
    "(let lo = (case qmin q of Given m \<Rightarrow> m | _ \<Rightarrow> NegInf);
          hi = (case qmax q of Given m \<Rightarrow> m | _ \<Rightarrow> PosInf)
      in ToNumber (JStr '''') = Inr (Fin 0) \<and>
         ToNumber (JArr []) = Inr (Fin 0) \<and>
         ToNumber JNull = Inr (Fin 0) \<and>
         (js_le lo (Fin 0) \<and> js_le (Fin 0) hi \<longrightarrow>
            calculateScore q (JStr '''') = Inr (points q) \<and>
            calculateScore q (JArr []) = Inr (points q) \<and>
            calculateScore q JNull = Inr (points q)) \<and>
         (ToNumber a = Inr v \<and> v \<noteq> NaN \<longrightarrow>
            calculateScore q a =
              Inr (if js_le lo v \<and> js_le v hi then points q else Fin 0)) \<and>
         (ToNumber a = Inr NaN \<longrightarrow> calculateScore q a = Inr (Fin 0)))"
proof -
  have e: "ToNumber (JStr '''') = Inr (Fin 0)"
    by (simp add: StringToNumber_def trim_def)
  have "ToNumber (JArr []) = Inr (Fin 0)" "ToNumber JNull = Inr (Fin 0)"
    by simp_all
  with e show ?thesis
    by (simp add: calculateScore_number [OF assms] nullish_def Let_def del: ToNumber.simps)
qed

theorem number_coercion_witness:
  "qtype number_question = NUMBER \<and>
   qmin number_question = Given (Fin 0) \<and>
   qmax number_question = Given (Fin 20) \<and>
   calculateScore number_question (JStr '''') = Inr (Fin 10) \<and>
   calculateScore number_question (JArr []) = Inr (Fin 10) \<and>
   calculateScore number_question JNull = Inr (Fin 10) \<and>
   ToNumber (JArr [JStr '' 7 '']) = Inr (Fin 7) \<and>
   calculateScore number_question (JArr [JStr '' 7 '']) = Inr (Fin 10) \<and>
   ToNumber (JStr ''25'') = Inr (Fin 25) \<and>
   calculateScore number_question (JStr ''25'') = Inr (Fin 0) \<and>
   calculateScore number_question (JNum (Fin 25)) = Inr (Fin 0) \<and>
   calculateScore number_question (JNum (Fin (- 5))) = Inr (Fin 0) \<and>
   ToNumber (JStr ''-1e-324'') = Inr (Fin 0) \<and>
   calculateScore number_question (JStr ''-1e-324'') = Inr (Fin 10) \<and>
   ToNumber (JStr ''1e309'') = Inr PosInf \<and>
   calculateScore number_question (JStr ''1e309'') = Inr (Fin 0) \<and>
   calculateScore (number_question\<lparr>qmax := Missing\<rparr>) (JStr ''1e309'') = Inr (Fin 10) \<and>
   calculateScore (number_question\<lparr>qmin := IsNull\<rparr>) (JNum (Fin (- 5))) = Inr (Fin 10) \<and>
   ToNumber (JStr ''abc'') = Inr NaN \<and>
   calculateScore number_question (JStr ''abc'') = Inr (Fin 0) \<and>
   ToNumber (JStr ''9007199254740993'') = Inr (Fin 9007199254740992) \<and>
   ToNumber (JStr ''0.1'') = Inr (Fin (3602879701896397 / 2 ^ 55))"
proof -
  let ?q = "number_question"
  let ?open_above = "number_question\<lparr>qmax := Missing\<rparr>"
  let ?open_below = "number_question\<lparr>qmin := IsNull\<rparr>"
  have t: "qtype ?q = NUMBER" "qtype ?open_above = NUMBER" "qtype ?open_below = NUMBER"
    by (simp_all add: number_question_def type_defs)
  have f: "qmin ?q = Given (Fin 0)" "qmax ?q = Given (Fin 20)" "points ?q = Fin 10"
    by (simp_all add: number_question_def)
  have seven: "ToNumber (JArr [JStr '' 7 '']) = Inr (Fin 7)"
    and twenty_five: "ToNumber (JStr ''25'') = Inr (Fin 25)"
    and tiny: "ToNumber (JStr ''-1e-324'') = Inr (Fin 0)"
    and huge: "ToNumber (JStr ''1e309'') = Inr PosInf"
    and abc: "ToNumber (JStr ''abc'') = Inr NaN"
    and tie: "ToNumber (JStr ''9007199254740993'') = Inr (Fin 9007199254740992)"
    and tenth: "ToNumber (JStr ''0.1'') = Inr (Fin (3602879701896397 / 2 ^ 55))"
    by (simp_all add: number_eval double_eval)
  have n: "ToNumber (JNum (Fin 25)) = Inr (Fin 25)" "ToNumber (JNum (Fin (- 5))) = Inr (Fin (- 5))"
    by simp_all
  have "calculateScore ?q (JStr '''') = Inr (Fin 10)"
    and "calculateScore ?q (JArr []) = Inr (Fin 10)"
    and "calculateScore ?q JNull = Inr (Fin 10)"
    using number_coercion [OF t(1), of JNull NaN]
    by (simp_all add: f Let_def del: ToNumber.simps)
  moreover have "calculateScore ?q (JArr [JStr '' 7 '']) = Inr (Fin 10)"
    using number_coercion [OF t(1), of "JArr [JStr '' 7 '']" "Fin 7"] seven
    by (simp add: f Let_def del: ToNumber.simps)
  moreover have "calculateScore ?q (JStr ''25'') = Inr (Fin 0)"
    using number_coercion [OF t(1), of "JStr ''25''" "Fin 25"] twenty_five
    by (simp add: f Let_def del: ToNumber.simps)
  moreover have "calculateScore ?q (JNum (Fin 25)) = Inr (Fin 0)"
    using number_coercion [OF t(1), of "JNum (Fin 25)" "Fin 25"] n(1)
    by (simp add: f Let_def del: ToNumber.simps)
  moreover have "calculateScore ?q (JNum (Fin (- 5))) = Inr (Fin 0)"
    using number_coercion [OF t(1), of "JNum (Fin (- 5))" "Fin (- 5)"] n(2)
    by (simp add: f Let_def del: ToNumber.simps)
  moreover have "calculateScore ?q (JStr ''-1e-324'') = Inr (Fin 10)"
    using number_coercion [OF t(1), of "JStr ''-1e-324''" "Fin 0"] tiny
    by (simp add: f Let_def del: ToNumber.simps)
  moreover have "calculateScore ?q (JStr ''1e309'') = Inr (Fin 0)"
    using number_coercion [OF t(1), of "JStr ''1e309''" PosInf] huge
    by (simp add: f Let_def del: ToNumber.simps)
  moreover have "calculateScore ?open_above (JStr ''1e309'') = Inr (Fin 10)"
    using number_coercion [OF t(2), of "JStr ''1e309''" PosInf] huge
    by (simp add: number_question_def Let_def del: ToNumber.simps)
  moreover have "calculateScore ?open_below (JNum (Fin (- 5))) = Inr (Fin 10)"
    using number_coercion [OF t(3), of "JNum (Fin (- 5))" "Fin (- 5)"] n(2)
    by (simp add: number_question_def Let_def del: ToNumber.simps)
  moreover have "calculateScore ?q (JStr ''abc'') = Inr (Fin 0)"
    using number_coercion [OF t(1), of "JStr ''abc''" NaN] abc
    by (simp add: f Let_def del: ToNumber.simps)
  ultimately show ?thesis
    using t(1) f(1,2) seven twenty_five tiny huge abc tie tenth by (simp only: simp_thms)
qed

subsection \<open>C5: the score of a text\<close>

text \<open>
  C5, as amended. For every question of the text variant and every string answer, the
  score is the points times the quotient of \<open>matchedCount\<close> by \<open>totalKeywords\<close>, where
  the quotient is rounded to a double before it is multiplied and the product is
  rounded again; \<open>matchedCount\<close> counts the keywords whose lower-cased form occurs in the
  lower-cased answer, each occurrence of a keyword in the list counting once, and
  \<open>totalKeywords\<close> is the number of keywords, or one when there is none. An answer that
  is not a string scores zero.
\<close>

theorem text_score:
  assumes "qtype q = TEXT"
  shows "calculateScore q (JStr s) =
     (let kws = given (keywords q);
          matchedCount =
            (\<Sum>k\<leftarrow>kws. if includes_str (toLowerCase s) (toLowerCase k) then 1 else 0);
          totalKeywords = (if kws = [] then 1 else length kws)
      in Inr (js_mul (points q) (js_div (Fin (real matchedCount)) (Fin (real totalKeywords))))) \<and>
     ((\<forall>s'. a \<noteq> JStr s') \<longrightarrow> calculateScore q a = Inr (Fin 0))"
proof -
  let ?kws = "given (keywords q)"
  let ?P = "\<lambda>k. includes_str (toLowerCase s) (toLowerCase k)"
  have count: "(\<Sum>k\<leftarrow>xs. if ?P k then 1 else 0) = length (filter ?P xs)" for xs
    by (induction xs) simp_all
  have "calculateScore q a = Inr (Fin 0)" if "\<forall>s'. a \<noteq> JStr s'"
    using that by (simp add: calculateScore_text_other [OF assms])
  then show ?thesis
    by (simp only: Let_def count calculateScore_text [OF assms]) blast
qed

theorem text_score_witness:
  "qtype text_question = TEXT \<and>
   calculateScore text_question (JStr ''I know TypeScript, Node.js, and testing'')
     = Inr (Fin 10) \<and>
   calculateScore text_question (JStr ''Expert in TYPESCRIPT and NODE'')
     = Inr (Fin (3752999689475413 / 2 ^ 49)) \<and>
   calculateScore text_question (JStr ''I love TypeScript'')
     = Inr (Fin (3752999689475413 / 2 ^ 50)) \<and>
   calculateScore text_question (JStr ''I know Java'') = Inr (Fin 0) \<and>
   calculateScore text_question (JNum (Fin 5)) = Inr (Fin 0)"
proof -
  have t: "qtype text_question = TEXT"
    by (simp add: text_question_def type_defs)
  have lower:
    "toLowerCase ''I know TypeScript, Node.js, and testing''
       = ''i know typescript, node.js, and testing''"
    "toLowerCase ''Expert in TYPESCRIPT and NODE'' = ''expert in typescript and node''"
    "toLowerCase ''I love TypeScript'' = ''i love typescript''"
    "toLowerCase ''I know Java'' = ''i know java''"
    "toLowerCase ''typescript'' = ''typescript''"
    "toLowerCase ''node'' = ''node''"
    "toLowerCase ''testing'' = ''testing''"
    by code_simp+
  have n: "\<forall>s'. JNum (Fin 5) \<noteq> JStr s'"
    by simp
  have all: "js_mul (Fin 10) (js_div (Fin 3) (Fin 3)) = Fin 10"
    and two: "js_mul (Fin 10) (js_div (Fin 2) (Fin 3)) = Fin (3752999689475413 / 2 ^ 49)"
    and one: "js_mul (Fin 10) (js_div (Fin 1) (Fin 3)) = Fin (3752999689475413 / 2 ^ 50)"
    and none: "js_mul (Fin 10) (js_div (Fin 0) (Fin 3)) = Fin 0"
    by (simp_all add: double_eval)
  have "calculateScore text_question (JStr ''I know TypeScript, Node.js, and testing'')
          = Inr (js_mul (Fin 10) (js_div (Fin 3) (Fin 3)))"
    using text_score [OF t, of "''I know TypeScript, Node.js, and testing''" "JNum (Fin 5)"]
    by (simp add: text_question_def given_def lower Let_def del: js_mul.simps js_div.simps)
  moreover have "calculateScore text_question (JStr ''Expert in TYPESCRIPT and NODE'')
          = Inr (js_mul (Fin 10) (js_div (Fin 2) (Fin 3)))"
    using text_score [OF t, of "''Expert in TYPESCRIPT and NODE''" "JNum (Fin 5)"]
    by (simp add: text_question_def given_def lower Let_def del: js_mul.simps js_div.simps)
  moreover have "calculateScore text_question (JStr ''I love TypeScript'')
          = Inr (js_mul (Fin 10) (js_div (Fin 1) (Fin 3)))"
    using text_score [OF t, of "''I love TypeScript''" "JNum (Fin 5)"]
    by (simp add: text_question_def given_def lower Let_def del: js_mul.simps js_div.simps)
  moreover have "calculateScore text_question (JStr ''I know Java'')
          = Inr (js_mul (Fin 10) (js_div (Fin 0) (Fin 3)))"
    using text_score [OF t, of "''I know Java''" "JNum (Fin 5)"]
    by (simp add: text_question_def given_def lower Let_def del: js_mul.simps js_div.simps)
  moreover have "calculateScore text_question (JNum (Fin 5)) = Inr (Fin 0)"
    using text_score [OF t, of "''''" "JNum (Fin 5)"] n by blast
  ultimately show ?thesis
    using t by (simp only: all two one none simp_thms)
qed

text \<open>The claim as stated fails for the text question of the test suite and an answer
  with two of its three keywords. The score is the double \<open>6.666666666666666\<close>. This is
  neither the exact value of the formula of the claim, twenty thirds, which is no
  double, nor what the formula gives when it is computed from left to right in
  doubles, the product first: \<open>6.666666666666667\<close>.\<close>

theorem text_score_counterexample:
  "validateQuestion text_question = [] \<and>
   calculateScore text_question (JStr ''Expert in TYPESCRIPT and NODE'')
     = Inr (Fin (3752999689475413 / 2 ^ 49)) \<and>
   Fin (3752999689475413 / 2 ^ 49) \<noteq> Fin (exact_score 10 2 3) \<and>
   js_div (js_mul (Fin 10) (Fin 2)) (Fin 3) = Fin (7505999378950827 / 2 ^ 50) \<and>
   Fin (3752999689475413 / 2 ^ 49) \<noteq> Fin (7505999378950827 / 2 ^ 50)"
proof -
  have v: "validateQuestion text_question = []"
    by (simp add: text_question_def validate_eval)
  have lower:
    "toLowerCase ''Expert in TYPESCRIPT and NODE'' = ''expert in typescript and node''"
    "toLowerCase ''typescript'' = ''typescript''"
    "toLowerCase ''node'' = ''node''"
    "toLowerCase ''testing'' = ''testing''"
    by code_simp+
  have two: "js_mul (Fin 10) (js_div (Fin 2) (Fin 3)) = Fin (3752999689475413 / 2 ^ 49)"
    by (simp add: double_eval)
  have "calculateScore text_question (JStr ''Expert in TYPESCRIPT and NODE'')
          = Inr (js_mul (Fin 10) (js_div (Fin 2) (Fin 3)))"
    by (simp add: text_question_def score_eval lower del: js_mul.simps js_div.simps)
  with two have s: "calculateScore text_question (JStr ''Expert in TYPESCRIPT and NODE'')
          = Inr (Fin (3752999689475413 / 2 ^ 49))"
    by (simp only:)
  have e: "Fin (3752999689475413 / 2 ^ 49) \<noteq> Fin (exact_score 10 2 3)"
    by (simp add: exact_score_def)
  have l: "js_div (js_mul (Fin 10) (Fin 2)) (Fin 3) = Fin (7505999378950827 / 2 ^ 50)"
    by (simp add: double_eval)
  have d: "Fin (3752999689475413 / 2 ^ 49) \<noteq> Fin (7505999378950827 / 2 ^ 50)"
    by simp
  from v s e l d show ?thesis by (simp only: simp_thms)
qed


end
